theory Spec2Isabelle
  imports Complex_Main
begin

section \<open>The versioned object index (index/indexer.go)\<close>

text \<open>
  The index orchestrates reads and writes of a git-like object store: it resolves
  references, stages writes in a per-branch workspace, folds the workspace into the
  branch's Merkle tree (partial commit), commits and merges. The index source is
  embedded function by function. The collaborators whose code lies outside the index
  source (the transactional store, the Merkle engine, the commit DAG, hashing, path
  utilities, validators) are parameters of the embedding, so every theorem holds for
  each implementation of them, also for one whose operations fail.
\<close>

subsection \<open>Errors\<close>

text \<open>
  The sentinel errors the index names (\<open>db.ErrNotFound\<close> and the \<open>errors.Err...\<close>
  values), any other error a collaborator may return (\<open>ErrOther\<close>), and an error
  wrapping another one, as \<open>xerrors.Errorf("...: %w", err)\<close> builds it.
\<close>

datatype error =
    ErrNotFound
  | ErrBranchNotFound
  | ErrBranchAlreadyExists
  | ErrNoMergeBase
  | ErrDestinationNotCommitted
  | ErrMergeConflict
  | ErrMergeUpdateFailed
  | ErrRepoExists
  | ErrOther string
  | Errorf string error

text \<open>\<open>xerrors.Is(err, target)\<close>: \<open>err\<close> is the target or wraps it.\<close>

fun xerrors_Is :: "error \<Rightarrow> error \<Rightarrow> bool" where
  "xerrors_Is (Errorf msg err) target = (Errorf msg err = target \<or> xerrors_Is err target)"
| "xerrors_Is err target = (err = target)"

subsection \<open>The data model (package model)\<close>

datatype Entry_Type = Entry_OBJECT | Entry_TREE

record Entry =
  Entry_Name :: string
  Entry_Address :: string
  Entry_Type :: Entry_Type
  Entry_Timestamp :: int
  Entry_Size :: int
  Entry_Checksum :: string

text \<open>
  A workspace entry points at its entry; the pointer is nil where the caller passed
  nil. The generated getters accept a nil receiver and then return the zero value.
\<close>

record WorkspaceEntry =
  WorkspaceEntry_Path :: string
  WorkspaceEntry_Entry :: "Entry option"
  WorkspaceEntry_Tombstone :: bool

definition Entry_GetAddress :: "Entry option \<Rightarrow> string" where
  "Entry_GetAddress e = (case e of None \<Rightarrow> [] | Some x \<Rightarrow> Entry_Address x)"

record Object =
  Object_PhysicalAddress :: string
  Object_Size :: int
  Object_Checksum :: string
  Object_Metadata :: "string \<rightharpoonup> string"

record Branch =
  Branch_Name :: string
  Branch_Commit :: string
  Branch_CommitRoot :: string
  Branch_WorkspaceRoot :: string

definition Branch_GetName :: "Branch option \<Rightarrow> string" where
  "Branch_GetName b = (case b of None \<Rightarrow> [] | Some x \<Rightarrow> Branch_Name x)"

definition Branch_GetWorkspaceRoot :: "Branch option \<Rightarrow> string" where
  "Branch_GetWorkspaceRoot b = (case b of None \<Rightarrow> [] | Some x \<Rightarrow> Branch_WorkspaceRoot x)"

record Commit =
  Commit_Address :: string
  Commit_Tree :: string
  Commit_Parents :: "string list"
  Commit_Committer :: string
  Commit_Message :: string
  Commit_Timestamp :: int
  Commit_Metadata :: "string \<rightharpoonup> string"

text \<open>
  The partial-commit ratio is a float32 in the source. The index only compares it
  with a draw of \<open>rand.Float32\<close>; neither is NaN, and comparing two float32 values
  compares the rationals they denote, so the ratio is modelled as a real number.
\<close>

record Repo =
  Repo_RepoId :: string
  Repo_BucketName :: string
  Repo_CreationDate :: int
  Repo_DefaultBranch :: string
  Repo_PartialCommitRatio :: real

subsection \<open>Differences (package merkle)\<close>

datatype DifferenceDirection =
  DifferenceDirectionLeft | DifferenceDirectionRight | DifferenceDirectionConflict

datatype DifferenceType =
  DifferenceTypeAdded | DifferenceTypeChanged | DifferenceTypeRemoved

record Difference =
  Difference_Type :: DifferenceType
  Difference_Direction :: DifferenceDirection
  Difference_Path :: string
  Difference_PathType :: Entry_Type

type_synonym Differences = "Difference list"

subsection \<open>The transactional store (package store)\<close>

text \<open>
  The store is an interface; its implementation is outside the index source. The
  operations of a transaction are fields of a record over the store's state \<open>'s\<close>.
  A read observes the state and returns a value or an error. A write returns the
  error, if any, and the state it leaves. \<open>RepoOperations\<close> extends
  \<open>RepoReadOnlyOperations\<close> as the interface of the source embeds it.
\<close>

record 's RepoReadOnlyOperations =
  ReadRepo :: "'s \<Rightarrow> error + Repo"
  ReadBranch :: "string \<Rightarrow> 's \<Rightarrow> error + Branch"
  ReadCommit :: "string \<Rightarrow> 's \<Rightarrow> error + Commit"
  ReadObject :: "string \<Rightarrow> 's \<Rightarrow> error + Object"
  ListWorkspace :: "string \<Rightarrow> 's \<Rightarrow> error + WorkspaceEntry list"
  ReadFromWorkspace :: "string \<Rightarrow> string \<Rightarrow> 's \<Rightarrow> error + WorkspaceEntry"

record 's RepoOperations = "'s RepoReadOnlyOperations" +
  WriteRepo :: "Repo \<Rightarrow> 's \<Rightarrow> error option \<times> 's"
  WriteBranch :: "string \<Rightarrow> Branch \<Rightarrow> 's \<Rightarrow> error option \<times> 's"
  WriteCommit :: "string \<Rightarrow> Commit \<Rightarrow> 's \<Rightarrow> error option \<times> 's"
  WriteObject :: "string \<Rightarrow> Object \<Rightarrow> 's \<Rightarrow> error option \<times> 's"
  WriteToWorkspacePath :: "string \<Rightarrow> string \<Rightarrow> WorkspaceEntry \<Rightarrow> 's \<Rightarrow> error option \<times> 's"
  DeleteWorkspacePath :: "string \<Rightarrow> string \<Rightarrow> 's \<Rightarrow> error option \<times> 's"
  ClearWorkspace :: "string \<Rightarrow> 's \<Rightarrow> error option \<times> 's"

text \<open>
  Modelled from the spec: the transaction scopes of the store, whose code is outside
  the index source. The read-write scope runs the function on the store; the first
  error aborts the transaction and no partial state reaches the store, and the error
  is handed to the caller as it is. The read-only scope hands the function the
  read-only operations and leaves the store as it was.
\<close>

definition RepoTransact :: "('s \<Rightarrow> (error + 'a) \<times> 's) \<Rightarrow> 's \<Rightarrow> (error + 'a) \<times> 's" where
  "RepoTransact fn s =
     (case fn s of
        (Inl err, s') \<Rightarrow> (Inl err, s)
      | (Inr v, s') \<Rightarrow> (Inr v, s'))"

definition RepoReadTransact :: "('s \<Rightarrow> error + 'a) \<Rightarrow> 's \<Rightarrow> (error + 'a) \<times> 's" where
  "RepoReadTransact fn s = (fn s, s)"

subsection \<open>The other packages the index calls\<close>

text \<open>
  The Merkle engine (a tree is named by its root address; \<open>Update\<close> writes the new
  nodes and returns the new root), the commit DAG, hashing (\<open>ident\<close>), the path
  utilities (\<open>pth\<close>), the validators, and the next draw of \<open>rand.Float32\<close>. Their
  code is outside the index source, so they are parameters. The Merkle and DAG
  functions read and write through the transaction they are given, here the state.
\<close>

record 's packages =
  merkle_GetObject :: "string \<Rightarrow> string \<Rightarrow> 's \<Rightarrow> error + Object"
  merkle_GetEntry :: "string \<Rightarrow> string \<Rightarrow> Entry_Type \<Rightarrow> 's \<Rightarrow> error + Entry"
  merkle_Update :: "string \<Rightarrow> WorkspaceEntry list \<Rightarrow> 's \<Rightarrow> (error + string) \<times> 's"
  merkle_Diff :: "string \<Rightarrow> string \<Rightarrow> string \<Rightarrow> 's \<Rightarrow> error + Differences"
  dag_FindLowestCommonAncestor :: "string \<Rightarrow> string \<Rightarrow> 's \<Rightarrow> error + Commit option"
  ident_IsHash :: "string \<Rightarrow> bool"
  ident_Hash_Commit :: "Commit \<Rightarrow> string"
  ident_Hash_Object :: "Object \<Rightarrow> string"
  ident_Empty :: string
  pth_Basename :: "string \<Rightarrow> string"
  pth_String :: "string \<Rightarrow> string"
  ValidateRepoId :: "string \<Rightarrow> error option"
  ValidateRef :: "string \<Rightarrow> error option"
  ValidatePath :: "string \<Rightarrow> error option"
  ValidateCommitMessage :: "string \<Rightarrow> error option"
  rand_Float32 :: real

text \<open>
  Modelled from the spec: \<open>ValidateAll\<close> (its code is outside the index source)
  reports the first validation error, if any. Validation happens before any
  transaction is opened.
\<close>

fun ValidateAll :: "error option list \<Rightarrow> error option" where
  "ValidateAll [] = None"
| "ValidateAll (None # vs) = ValidateAll vs"
| "ValidateAll (Some err # vs) = Some err"

text \<open>
  The index handle: the store's operations and the value the timestamp generator
  returns for the call at hand.
\<close>

record 's KVIndex =
  kv :: "'s RepoOperations"
  tsGenerator :: int

subsection \<open>Partial commit\<close>

definition DefaultPartialCommitRatio :: real where
  "DefaultPartialCommitRatio = 1"

definition shouldPartiallyCommit :: "'s packages \<Rightarrow> Repo \<Rightarrow> bool" where
  "shouldPartiallyCommit env repo =
     (let chosen = rand_Float32 env in chosen < Repo_PartialCommitRatio repo)"

definition partialCommit ::
  "'s packages \<Rightarrow> 's RepoOperations \<Rightarrow> string \<Rightarrow> 's \<Rightarrow> error option \<times> 's" where
  "partialCommit env tx branch s =
     (case ListWorkspace tx branch s of
        Inl err \<Rightarrow> (Some err, s)
      | Inr wsEntries \<Rightarrow>
          if length wsEntries = 0 then (None, s)
          else
            (case ReadBranch tx branch s of
               Inl err \<Rightarrow>
                 if xerrors_Is err ErrNotFound then (None, s) else (Some err, s)
             | Inr branchData \<Rightarrow>
                 (case merkle_Update env (Branch_WorkspaceRoot branchData) wsEntries s of
                    (Inl err, s1) \<Rightarrow> (Some err, s1)
                  | (Inr tree, s1) \<Rightarrow>
                      (case ClearWorkspace tx branch s1 of
                         (Some err, s2) \<Rightarrow> (Some err, s2)
                       | (None, s2) \<Rightarrow>
                           (case WriteBranch tx branch
                                   \<lparr>Branch_Name = branch,
                                    Branch_Commit = Branch_Commit branchData,
                                    Branch_CommitRoot = Branch_CommitRoot branchData,
                                    Branch_WorkspaceRoot = tree\<rparr> s2 of
                              (Some err, s3) \<Rightarrow> (Some err, s3)
                            | (None, s3) \<Rightarrow> (None, s3))))))"

definition writeEntryToWorkspace ::
  "'s packages \<Rightarrow> 's RepoOperations \<Rightarrow> Repo \<Rightarrow> string \<Rightarrow> string \<Rightarrow> WorkspaceEntry
     \<Rightarrow> 's \<Rightarrow> error option \<times> 's" where
  "writeEntryToWorkspace env tx repo branch path entry s =
     (case WriteToWorkspacePath tx branch path entry s of
        (Some err, s1) \<Rightarrow> (Some err, s1)
      | (None, s1) \<Rightarrow>
          if shouldPartiallyCommit env repo then
            (case partialCommit env tx branch s1 of
               (Some err, s2) \<Rightarrow> (Some err, s2)
             | (None, s2) \<Rightarrow> (None, s2))
          else (None, s1))"

subsection \<open>Reference resolution\<close>

record reference =
  reference_commit :: Commit
  reference_branch :: "Branch option"
  reference_isBranch :: bool

definition resolveRef ::
  "'s packages \<Rightarrow> ('s, 'm) RepoReadOnlyOperations_scheme \<Rightarrow> string \<Rightarrow> 's
     \<Rightarrow> error + reference" where
  "resolveRef env tx ref s =
     (let asBranch =
        (case ReadBranch tx ref s of
           Inl err \<Rightarrow> Inl err
         | Inr branch \<Rightarrow>
             (case ReadCommit tx (Branch_Commit branch) s of
                Inl err \<Rightarrow> Inl err
              | Inr commit \<Rightarrow>
                  Inr \<lparr>reference_commit = commit,
                       reference_branch = Some branch,
                       reference_isBranch = True\<rparr>))
      in if ident_IsHash env ref then
           (case ReadCommit tx ref s of
              Inl err \<Rightarrow> if \<not> xerrors_Is err ErrNotFound then Inl err else asBranch
            | Inr commit \<Rightarrow>
                Inr \<lparr>reference_commit = commit,
                     reference_branch = None,
                     reference_isBranch = False\<rparr>)
         else asBranch)"

subsection \<open>Results of transaction functions\<close>

text \<open>
  A transaction function of the source returns \<open>(value, err)\<close>. These two helpers
  turn the error of a write into such a pair with no value (\<open>return nil, err\<close>) and
  keep only the error of a transaction (\<open>_, err = ...; return err\<close>).
\<close>

definition return_nil :: "error option \<times> 's \<Rightarrow> (error + unit) \<times> 's" where
  "return_nil r = (case r of (Some err, s) \<Rightarrow> (Inl err, s) | (None, s) \<Rightarrow> (Inr (), s))"

definition only_err :: "(error + 'a) \<times> 's \<Rightarrow> error option \<times> 's" where
  "only_err r = (case r of (Inl err, s) \<Rightarrow> (Some err, s) | (Inr v, s) \<Rightarrow> (None, s))"

subsection \<open>Reading an object\<close>

text \<open>The function \<open>ReadObject\<close> runs inside its read-only transaction.\<close>

definition ReadObject_tx ::
  "'s packages \<Rightarrow> ('s, 'm) RepoReadOnlyOperations_scheme \<Rightarrow> string \<Rightarrow> string \<Rightarrow> 's
     \<Rightarrow> error + Object" where
  "ReadObject_tx env tx ref path s =
     (case ReadRepo tx s of
        Inl err \<Rightarrow> Inl err
      | Inr repo \<Rightarrow>
          (case resolveRef env tx ref s of
             Inl err \<Rightarrow> Inl err
           | Inr reference \<Rightarrow>
               if reference_isBranch reference then
                 (case ReadFromWorkspace tx (Branch_GetName (reference_branch reference)) path s of
                    Inl err \<Rightarrow>
                      if xerrors_Is err ErrNotFound then
                        (case merkle_GetObject env
                                (Branch_GetWorkspaceRoot (reference_branch reference)) path s of
                           Inl err \<Rightarrow> Inl err
                         | Inr obj \<Rightarrow> Inr obj)
                      else Inl err
                  | Inr we \<Rightarrow>
                      if WorkspaceEntry_Tombstone we then Inl ErrNotFound
                      else ReadObject tx (Entry_GetAddress (WorkspaceEntry_Entry we)) s)
               else
                 (case merkle_GetObject env (Commit_Tree (reference_commit reference)) path s of
                    Inl err \<Rightarrow> Inl err
                  | Inr obj \<Rightarrow> Inr obj)))"

definition KVIndex_ReadObject ::
  "'s packages \<Rightarrow> 's KVIndex \<Rightarrow> string \<Rightarrow> string \<Rightarrow> string \<Rightarrow> 's
     \<Rightarrow> (error + Object) \<times> 's" where
  "KVIndex_ReadObject env index repoId ref path s =
     (case ValidateAll [ValidateRepoId env repoId, ValidateRef env ref, ValidatePath env path] of
        Some err \<Rightarrow> (Inl err, s)
      | None \<Rightarrow> RepoReadTransact (ReadObject_tx env (kv index) ref path) s)"

subsection \<open>Writing\<close>







subsection \<open>Deleting an object\<close>

text \<open>
  The transaction function of \<open>DeleteObject\<close>, cut at the two reads that may report
  a missing entry: each continuation takes the counter \<open>notFoundCount\<close> and the
  pointers read so far (\<open>None\<close> is nil). The tombstone it stages carries only the
  name, the timestamp and the kind.
\<close>

definition DeleteObject_tombstone :: "'s packages \<Rightarrow> string \<Rightarrow> int \<Rightarrow> WorkspaceEntry" where
  "DeleteObject_tombstone env path ts =
     \<lparr>WorkspaceEntry_Path = path,
      WorkspaceEntry_Entry = Some
        \<lparr>Entry_Name = pth_Basename env path,
         Entry_Address = [],
         Entry_Type = Entry_OBJECT,
         Entry_Timestamp = ts,
         Entry_Size = 0,
         Entry_Checksum = []\<rparr>,
      WorkspaceEntry_Tombstone = True\<rparr>"

definition DeleteObject_stage ::
  "'s packages \<Rightarrow> 's RepoOperations \<Rightarrow> Repo \<Rightarrow> string \<Rightarrow> string \<Rightarrow> int
     \<Rightarrow> Entry option \<Rightarrow> 's \<Rightarrow> (error + unit) \<times> 's" where
  "DeleteObject_stage env tx repo branch path ts merkleEntry s =
     (case merkleEntry of
        Some me \<Rightarrow>
          return_nil (writeEntryToWorkspace env tx repo branch path
            (DeleteObject_tombstone env path ts) s)
      | None \<Rightarrow> (Inr (), s))"

definition DeleteObject_decide ::
  "'s packages \<Rightarrow> 's RepoOperations \<Rightarrow> Repo \<Rightarrow> string \<Rightarrow> string \<Rightarrow> int
     \<Rightarrow> nat \<Rightarrow> WorkspaceEntry option \<Rightarrow> Entry option \<Rightarrow> 's \<Rightarrow> (error + unit) \<times> 's" where
  "DeleteObject_decide env tx repo branch path ts notFoundCount wsEntry merkleEntry s =
     (if notFoundCount = 2 then (Inl ErrNotFound, s)
      else
        (case wsEntry of
           Some we \<Rightarrow>
             if WorkspaceEntry_Tombstone we then (Inl ErrNotFound, s)
             else
               (case DeleteWorkspacePath tx branch path s of
                  (Some err, s1) \<Rightarrow> (Inl err, s1)
                | (None, s1) \<Rightarrow> DeleteObject_stage env tx repo branch path ts merkleEntry s1)
         | None \<Rightarrow> DeleteObject_stage env tx repo branch path ts merkleEntry s))"

definition DeleteObject_merkle ::
  "'s packages \<Rightarrow> 's RepoOperations \<Rightarrow> Repo \<Rightarrow> string \<Rightarrow> string \<Rightarrow> int
     \<Rightarrow> nat \<Rightarrow> WorkspaceEntry option \<Rightarrow> 's \<Rightarrow> (error + unit) \<times> 's" where
  "DeleteObject_merkle env tx repo branch path ts notFoundCount wsEntry s =
     (case ReadBranch tx branch s of
        Inl err \<Rightarrow> (Inl err, s)
      | Inr br \<Rightarrow>
          (let root = Branch_WorkspaceRoot br in
           case merkle_GetEntry env root path Entry_OBJECT s of
             Inl err \<Rightarrow>
               if xerrors_Is err ErrNotFound then
                 DeleteObject_decide env tx repo branch path ts (notFoundCount + 1) wsEntry None s
               else (Inl err, s)
           | Inr merkleEntry \<Rightarrow>
               DeleteObject_decide env tx repo branch path ts notFoundCount wsEntry
                 (Some merkleEntry) s))"

definition DeleteObject_tx ::
  "'s packages \<Rightarrow> 's RepoOperations \<Rightarrow> string \<Rightarrow> string \<Rightarrow> int \<Rightarrow> 's
     \<Rightarrow> (error + unit) \<times> 's" where
  "DeleteObject_tx env tx branch path ts s =
     (case ReadRepo tx s of
        Inl err \<Rightarrow> (Inl err, s)
      | Inr repo \<Rightarrow>
          (case ReadFromWorkspace tx branch path s of
             Inl err \<Rightarrow>
               if xerrors_Is err ErrNotFound then
                 DeleteObject_merkle env tx repo branch path ts (0 + 1) None s
               else (Inl err, s)
           | Inr wsEntry \<Rightarrow>
               DeleteObject_merkle env tx repo branch path ts 0 (Some wsEntry) s))"

definition KVIndex_DeleteObject ::
  "'s packages \<Rightarrow> 's KVIndex \<Rightarrow> string \<Rightarrow> string \<Rightarrow> string \<Rightarrow> 's \<Rightarrow> error option \<times> 's" where
  "KVIndex_DeleteObject env index repoId branch path s =
     (case ValidateAll [ValidateRepoId env repoId, ValidateRef env branch, ValidatePath env path] of
        Some err \<Rightarrow> (Some err, s)
      | None \<Rightarrow>
          (let ts = tsGenerator index in
           only_err (RepoTransact (DeleteObject_tx env (kv index) branch path ts) s)))"

subsection \<open>Committing\<close>

text \<open>
  \<open>doCommitUpdates\<close> returns the commit together with the error of the last write;
  every caller drops the commit when the error is not nil, so the pair is modelled as
  a sum.
\<close>

definition doCommitUpdates ::
  "'s packages \<Rightarrow> 's RepoOperations \<Rightarrow> Branch \<Rightarrow> string \<Rightarrow> string \<Rightarrow> string list
     \<Rightarrow> (string \<rightharpoonup> string) \<Rightarrow> int \<Rightarrow> 's \<Rightarrow> (error + Commit) \<times> 's" where
  "doCommitUpdates env tx branchData committer message parents metadata ts s =
     (let commit0 =
            \<lparr>Commit_Address = [],
             Commit_Tree = Branch_WorkspaceRoot branchData,
             Commit_Parents = parents,
             Commit_Committer = committer,
             Commit_Message = message,
             Commit_Timestamp = ts,
             Commit_Metadata = metadata\<rparr>;
          commitAddr = ident_Hash_Commit env commit0;
          commit = commit0\<lparr>Commit_Address := commitAddr\<rparr>
      in case WriteCommit tx commitAddr commit s of
           (Some err, s1) \<Rightarrow> (Inl err, s1)
         | (None, s1) \<Rightarrow>
             (let branchData1 =
                    branchData\<lparr>Branch_Commit := commitAddr,
                               Branch_CommitRoot := Commit_Tree commit,
                               Branch_WorkspaceRoot := Commit_Tree commit\<rparr>
              in case WriteBranch tx (Branch_Name branchData1) branchData1 s1 of
                   (Some err, s2) \<Rightarrow> (Inl err, s2)
                 | (None, s2) \<Rightarrow> (Inr commit, s2)))"

definition Commit_tx ::
  "'s packages \<Rightarrow> 's RepoOperations \<Rightarrow> string \<Rightarrow> string \<Rightarrow> string \<Rightarrow> (string \<rightharpoonup> string)
     \<Rightarrow> int \<Rightarrow> 's \<Rightarrow> (error + Commit) \<times> 's" where
  "Commit_tx env tx branch message committer metadata ts s =
     (case partialCommit env tx branch s of
        (Some err, s1) \<Rightarrow> (Inl err, s1)
      | (None, s1) \<Rightarrow>
          (case ReadBranch tx branch s1 of
             Inl err \<Rightarrow> (Inl err, s1)
           | Inr branchData \<Rightarrow>
               doCommitUpdates env tx branchData committer message
                 [Branch_Commit branchData] metadata ts s1))"

definition KVIndex_Commit ::
  "'s packages \<Rightarrow> 's KVIndex \<Rightarrow> string \<Rightarrow> string \<Rightarrow> string \<Rightarrow> string
     \<Rightarrow> (string \<rightharpoonup> string) \<Rightarrow> 's \<Rightarrow> (error + Commit) \<times> 's" where
  "KVIndex_Commit env index repoId branch message committer metadata s =
     (case ValidateAll [ValidateRepoId env repoId, ValidateRef env branch,
                        ValidateCommitMessage env message] of
        Some err \<Rightarrow> (Inl err, s)
      | None \<Rightarrow>
          (let ts = tsGenerator index in
           RepoTransact (Commit_tx env (kv index) branch message committer metadata ts) s))"

subsection \<open>Diff and merge\<close>

definition doDiff ::
  "'s packages \<Rightarrow> ('s, 'm) RepoReadOnlyOperations_scheme \<Rightarrow> string \<Rightarrow> string \<Rightarrow> string
     \<Rightarrow> bool \<Rightarrow> 's \<Rightarrow> error + Differences" where
  "doDiff env tx repoId leftRef rightRef isMerge s =
     (case resolveRef env tx leftRef s of
        Inl err \<Rightarrow> Inl ErrBranchNotFound
      | Inr lRef \<Rightarrow>
          (case resolveRef env tx rightRef s of
             Inl err \<Rightarrow> Inl ErrBranchNotFound
           | Inr rRef \<Rightarrow>
               (case dag_FindLowestCommonAncestor env
                       (Commit_Address (reference_commit lRef))
                       (Commit_Address (reference_commit rRef)) s of
                  Inl err \<Rightarrow> Inl ErrNoMergeBase
                | Inr None \<Rightarrow> Inl ErrNoMergeBase
                | Inr (Some commonCommits) \<Rightarrow>
                    (let leftTree =
                           (if reference_isBranch lRef \<and> \<not> isMerge
                            then Branch_GetWorkspaceRoot (reference_branch lRef)
                            else Commit_Tree (reference_commit lRef));
                         rightTree = Commit_Tree (reference_commit rRef)
                     in merkle_Diff env leftTree rightTree (Commit_Tree commonCommits) s))))"

text \<open>
  The first loop of \<open>Merge\<close> over the differences: it raises \<open>isConflict\<close> at a
  conflict and appends to \<open>mergeOperations\<close> each difference whose direction is not
  right.
\<close>

fun Merge_scan :: "Differences \<Rightarrow> bool \<Rightarrow> Differences \<Rightarrow> bool \<times> Differences" where
  "Merge_scan [] isConflict mergeOperations = (isConflict, mergeOperations)"
| "Merge_scan (dif # df) isConflict mergeOperations =
     Merge_scan df
       (if Difference_Direction dif = DifferenceDirectionConflict then True else isConflict)
       (if Difference_Direction dif \<noteq> DifferenceDirectionRight
        then mergeOperations @ [dif] else mergeOperations)"

text \<open>\<open>strings.Split(s, "/")\<close>: the pieces between the slashes, never an empty list.\<close>

fun strings_Split :: "string \<Rightarrow> string list" where
  "strings_Split [] = ['''']"
| "strings_Split (c # cs) =
     (if c = CHR ''/'' then [] # strings_Split cs
      else (case strings_Split cs of
              [] \<Rightarrow> [c # []]
            | w # ws \<Rightarrow> (c # w) # ws))"

text \<open>
  The second loop of \<open>Merge\<close>: each merge operation becomes a workspace entry, a
  removal a tombstone that carries the last path segment, any other the entry read
  from the source branch's workspace root. Where a read fails the source logs at
  level Fatal and returns the error; the model returns the error.
\<close>

fun Merge_entries ::
  "'s packages \<Rightarrow> Branch \<Rightarrow> 's \<Rightarrow> Differences \<Rightarrow> WorkspaceEntry list
     \<Rightarrow> error + WorkspaceEntry list" where
  "Merge_entries env sourceBranch s [] wsEntries = Inr wsEntries"
| "Merge_entries env sourceBranch s (dif # ops) wsEntries =
     (if Difference_Type dif \<noteq> DifferenceTypeRemoved then
        (case merkle_GetEntry env (Branch_WorkspaceRoot sourceBranch)
                (Difference_Path dif) (Difference_PathType dif) s of
           Inl err \<Rightarrow> Inl err
         | Inr e \<Rightarrow>
             Merge_entries env sourceBranch s ops
               (wsEntries @
                [\<lparr>WorkspaceEntry_Path = Difference_Path dif,
                  WorkspaceEntry_Entry = Some e,
                  WorkspaceEntry_Tombstone = (Difference_Type dif = DifferenceTypeRemoved)\<rparr>]))
      else
        (let p = strings_Split (Difference_Path dif);
             e = \<lparr>Entry_Name = last p,
                  Entry_Address = [],
                  Entry_Type = Difference_PathType dif,
                  Entry_Timestamp = 0,
                  Entry_Size = 0,
                  Entry_Checksum = []\<rparr>
         in Merge_entries env sourceBranch s ops
              (wsEntries @
               [\<lparr>WorkspaceEntry_Path = Difference_Path dif,
                 WorkspaceEntry_Entry = Some e,
                 WorkspaceEntry_Tombstone = (Difference_Type dif = DifferenceTypeRemoved)\<rparr>])))"

text \<open>
  The part of the transaction function of \<open>Merge\<close> after the check of the
  destination, from the computation of the difference on. The first component of the
  result is the variable \<open>mergeOperations\<close>, which the function shares with
  \<open>Merge\<close>; the second is what the function returns and the state it leaves.
\<close>

definition Merge_body ::
  "'s packages \<Rightarrow> 's RepoOperations \<Rightarrow> string \<Rightarrow> string \<Rightarrow> string \<Rightarrow> string \<Rightarrow> int
     \<Rightarrow> Branch \<Rightarrow> 's \<Rightarrow> Differences \<times> (error + Differences) \<times> 's" where
  "Merge_body env tx repoId source destination userId ts destinationBranch s =
     (case doDiff env tx repoId source destination True s of
        Inl err \<Rightarrow> ([], Inl err, s)
      | Inr df \<Rightarrow>
          (case Merge_scan df False [] of
             (isConflict, mergeOperations) \<Rightarrow>
               if isConflict then (mergeOperations, Inl ErrMergeConflict, s)
               else
                 (case ReadBranch tx source s of
                    Inl err \<Rightarrow> (mergeOperations, Inl err, s)
                  | Inr sourceBranch \<Rightarrow>
                      (case Merge_entries env sourceBranch s mergeOperations [] of
                         Inl err \<Rightarrow> (mergeOperations, Inl err, s)
                       | Inr wsEntries \<Rightarrow>
                           (case merkle_Update env (Branch_CommitRoot destinationBranch)
                                   wsEntries s of
                              (Inl err, s1) \<Rightarrow> (mergeOperations, Inl ErrMergeUpdateFailed, s1)
                            | (Inr newRoot, s1) \<Rightarrow>
                                (let destinationBranch1 =
                                       destinationBranch\<lparr>Branch_CommitRoot := newRoot,
                                                         Branch_WorkspaceRoot := newRoot\<rparr>;
                                     parents = [Branch_Commit destinationBranch1,
                                                Branch_Commit sourceBranch];
                                     commitMessage =
                                       ''Merge branch '' @ source @ '' into '' @ destination
                                 in case doCommitUpdates env tx destinationBranch1 userId
                                           commitMessage parents Map.empty ts s1 of
                                      (discarded, s2) \<Rightarrow>
                                        (mergeOperations, Inr mergeOperations, s2)))))))"

definition Merge_tx ::
  "'s packages \<Rightarrow> 's RepoOperations \<Rightarrow> string \<Rightarrow> string \<Rightarrow> string \<Rightarrow> string \<Rightarrow> int
     \<Rightarrow> 's \<Rightarrow> Differences \<times> (error + Differences) \<times> 's" where
  "Merge_tx env tx repoId source destination userId ts s =
     (case ReadBranch tx destination s of
        Inl err \<Rightarrow> ([], Inl ErrBranchNotFound, s)
      | Inr destinationBranch \<Rightarrow>
          (case ListWorkspace tx destination s of
             Inl err \<Rightarrow> ([], Inl err, s)
           | Inr l \<Rightarrow>
               if Branch_CommitRoot destinationBranch \<noteq> Branch_WorkspaceRoot destinationBranch
                  \<or> length l > 0
               then ([], Inl ErrDestinationNotCommitted, s)
               else Merge_body env tx repoId source destination userId ts destinationBranch s))"

text \<open>
  \<open>Merge\<close> returns the differences and the error as a pair; the nil slice is the
  empty list.
\<close>

definition KVIndex_Merge ::
  "'s packages \<Rightarrow> 's KVIndex \<Rightarrow> string \<Rightarrow> string \<Rightarrow> string \<Rightarrow> string \<Rightarrow> 's
     \<Rightarrow> (Differences \<times> error option) \<times> 's" where
  "KVIndex_Merge env index repoId source destination userId s =
     (case ValidateAll [ValidateRepoId env repoId, ValidateRef env source,
                        ValidateRef env destination] of
        Some err \<Rightarrow> (([], Some err), s)
      | None \<Rightarrow>
          (let ts = tsGenerator index;
               mergeOperations =
                 fst (Merge_tx env (kv index) repoId source destination userId ts s)
           in case RepoTransact
                     (\<lambda>s. snd (Merge_tx env (kv index) repoId source destination userId ts s)) s of
                (Inr v, s') \<Rightarrow> ((mergeOperations, None), s')
              | (Inl err, s') \<Rightarrow>
                  if err = ErrMergeConflict then ((mergeOperations, Some err), s')
                  else (([], Some err), s')))"

subsection \<open>Creating a repository\<close>

text \<open>The repository record that \<open>CreateRepo\<close> builds before its transaction.\<close>

definition CreateRepo_repo :: "string \<Rightarrow> string \<Rightarrow> string \<Rightarrow> int \<Rightarrow> Repo" where
  "CreateRepo_repo repoId bucketName defaultBranch creationDate =
     \<lparr>Repo_RepoId = repoId,
      Repo_BucketName = bucketName,
      Repo_CreationDate = creationDate,
      Repo_DefaultBranch = defaultBranch,
      Repo_PartialCommitRatio = DefaultPartialCommitRatio\<rparr>"



subsection \<open>What the index expects of the store\<close>

text \<open>
  The laws of the store that some properties of the index rest on. Each is a
  hypothesis of the theorems that need it, and the in-memory store below obeys all of
  them. After a successful \<open>ClearWorkspace\<close> the workspace of the branch lists no
  entry.
\<close>

definition clears_workspace :: "'s RepoOperations \<Rightarrow> bool" where
  "clears_workspace tx =
     (\<forall>b s s'. ClearWorkspace tx b s = (None, s') \<longrightarrow> ListWorkspace tx b s' = Inr [])"

text \<open>
  After a successful \<open>WriteBranch\<close> the branch reads back as written, and no
  workspace has changed.
\<close>

definition writes_branch :: "'s RepoOperations \<Rightarrow> bool" where
  "writes_branch tx =
     (\<forall>n br s s'. WriteBranch tx n br s = (None, s') \<longrightarrow>
        ReadBranch tx n s' = Inr br \<and> (\<forall>b. ListWorkspace tx b s' = ListWorkspace tx b s))"


text \<open>
  After a successful \<open>WriteCommit\<close> the commit reads back under its address, and
  writing a branch leaves the commits as they were.
\<close>

definition writes_commit :: "'s RepoOperations \<Rightarrow> bool" where
  "writes_commit tx =
     ((\<forall>a c s s'. WriteCommit tx a c s = (None, s') \<longrightarrow> ReadCommit tx a s' = Inr c) \<and>
      (\<forall>n b s s' a. WriteBranch tx n b s = (None, s') \<longrightarrow>
         ReadCommit tx a s' = ReadCommit tx a s))"

text \<open>
  After a successful \<open>WriteToWorkspacePath\<close> the workspace of the branch lists the
  entry.
\<close>

definition stages_entry :: "'s RepoOperations \<Rightarrow> bool" where
  "stages_entry tx =
     (\<forall>b p we s s'. WriteToWorkspacePath tx b p we s = (None, s') \<longrightarrow>
        (\<exists>l. ListWorkspace tx b s' = Inr l \<and> we \<in> set l))"


text \<open>Running \<open>partialCommit\<close> again once it has returned without an error.\<close>

definition partialCommit_twice ::
  "'s packages \<Rightarrow> 's RepoOperations \<Rightarrow> string \<Rightarrow> 's \<Rightarrow> error option \<times> 's" where
  "partialCommit_twice env tx branch s =
     (case partialCommit env tx branch s of
        (Some err, s1) \<Rightarrow> (Some err, s1)
      | (None, s1) \<Rightarrow> partialCommit env tx branch s1)"

subsection \<open>An in-memory store and packages\<close>

text \<open>
  Modelled from the spec: the store behind the contract of section 6, whose code is
  outside the index source, as finite maps keyed as the data model says: a branch by
  its name, a commit and an object by their address, a workspace entry by branch and
  path. The contract names no precondition for a write, so each write is performed as
  asked, and a read of a missing key reports NotFound. With it comes a small instance
  of the packages, used to run the index on concrete inputs: trees kept as flat
  listings from path to entry under their root address, a three-way difference of two
  listings against a base, and a bounded breadth-first search for the common ancestor.
\<close>

record mem =
  mem_repo :: "Repo option"
  mem_branches :: "string \<rightharpoonup> Branch"
  mem_commits :: "string \<rightharpoonup> Commit"
  mem_objects :: "string \<rightharpoonup> Object"
  mem_workspace :: "string \<Rightarrow> (string \<times> WorkspaceEntry) list"
  mem_trees :: "string \<rightharpoonup> (string \<times> Entry) list"

definition mem_read :: "'v option \<Rightarrow> error + 'v" where
  "mem_read r = (case r of None \<Rightarrow> Inl ErrNotFound | Some v \<Rightarrow> Inr v)"

definition mem_tx :: "mem RepoOperations" where
  "mem_tx =
     \<lparr>ReadRepo = (\<lambda>s. mem_read (mem_repo s)),
      ReadBranch = (\<lambda>n s. mem_read (mem_branches s n)),
      ReadCommit = (\<lambda>a s. mem_read (mem_commits s a)),
      ReadObject = (\<lambda>a s. mem_read (mem_objects s a)),
      ListWorkspace = (\<lambda>b s. Inr (map snd (mem_workspace s b))),
      ReadFromWorkspace = (\<lambda>b p s. mem_read (map_of (mem_workspace s b) p)),
      WriteRepo = (\<lambda>r s. (None, s\<lparr>mem_repo := Some r\<rparr>)),
      WriteBranch = (\<lambda>n b s. (None, s\<lparr>mem_branches := (mem_branches s)(n \<mapsto> b)\<rparr>)),
      WriteCommit = (\<lambda>a c s. (None, s\<lparr>mem_commits := (mem_commits s)(a \<mapsto> c)\<rparr>)),
      WriteObject = (\<lambda>a ob s. (None, s\<lparr>mem_objects := (mem_objects s)(a \<mapsto> ob)\<rparr>)),
      WriteToWorkspacePath = (\<lambda>b p we s.
        (None, s\<lparr>mem_workspace :=
                   (mem_workspace s)(b := (p, we) # filter (\<lambda>x. fst x \<noteq> p) (mem_workspace s b))\<rparr>)),
      DeleteWorkspacePath = (\<lambda>b p s.
        (None, s\<lparr>mem_workspace :=
                   (mem_workspace s)(b := filter (\<lambda>x. fst x \<noteq> p) (mem_workspace s b))\<rparr>)),
      ClearWorkspace = (\<lambda>b s. (None, s\<lparr>mem_workspace := (mem_workspace s)(b := [])\<rparr>))\<rparr>"

text \<open>The same store with a commit write that always fails.\<close>

definition mem_tx_failing :: "mem RepoOperations" where
  "mem_tx_failing = mem_tx\<lparr>WriteCommit := (\<lambda>a c s. (Some (ErrOther ''write failed''), s))\<rparr>"

definition mem_GetEntry :: "string \<Rightarrow> string \<Rightarrow> Entry_Type \<Rightarrow> mem \<Rightarrow> error + Entry" where
  "mem_GetEntry rootAddr path typ s =
     (case mem_trees s rootAddr of
        None \<Rightarrow> Inl ErrNotFound
      | Some t \<Rightarrow>
          (case map_of t path of
             None \<Rightarrow> Inl ErrNotFound
           | Some e \<Rightarrow> if Entry_Type e = typ then Inr e else Inl ErrNotFound))"

definition mem_GetObject :: "string \<Rightarrow> string \<Rightarrow> mem \<Rightarrow> error + Object" where
  "mem_GetObject rootAddr path s =
     (case mem_GetEntry rootAddr path Entry_OBJECT s of
        Inl err \<Rightarrow> Inl err
      | Inr e \<Rightarrow> mem_read (mem_objects s (Entry_Address e)))"

fun mem_apply :: "(string \<times> Entry) list \<Rightarrow> WorkspaceEntry list \<Rightarrow> (string \<times> Entry) list" where
  "mem_apply t [] = t"
| "mem_apply t (we # wes) =
     (let rest = filter (\<lambda>x. fst x \<noteq> WorkspaceEntry_Path we) t
      in case WorkspaceEntry_Entry we of
           None \<Rightarrow> mem_apply rest wes
         | Some e \<Rightarrow>
             if WorkspaceEntry_Tombstone we then mem_apply rest wes
             else mem_apply ((WorkspaceEntry_Path we, e) # rest) wes)"

definition mem_tree_address :: "(string \<times> Entry) list \<Rightarrow> string" where
  "mem_tree_address t = concat (map (\<lambda>x. fst x @ ''='' @ Entry_Address (snd x) @ '';'') t)"

definition mem_Update :: "string \<Rightarrow> WorkspaceEntry list \<Rightarrow> mem \<Rightarrow> (error + string) \<times> mem" where
  "mem_Update rootAddr wsEntries s =
     (case mem_trees s rootAddr of
        None \<Rightarrow> (Inl ErrNotFound, s)
      | Some t \<Rightarrow>
          (let t1 = mem_apply t wsEntries; a = mem_tree_address t1
           in (Inr a, s\<lparr>mem_trees := (mem_trees s)(a \<mapsto> t1)\<rparr>)))"

definition mem_diff_type :: "Entry option \<Rightarrow> Entry option \<Rightarrow> DifferenceType" where
  "mem_diff_type changed base =
     (if base = None then DifferenceTypeAdded
      else if changed = None then DifferenceTypeRemoved
      else DifferenceTypeChanged)"

definition mem_diff_path ::
  "(string \<times> Entry) list \<Rightarrow> (string \<times> Entry) list \<Rightarrow> (string \<times> Entry) list \<Rightarrow> string
     \<Rightarrow> Differences" where
  "mem_diff_path lt rt bt p =
     (let le = map_of lt p; re = map_of rt p; be = map_of bt p in
      if le = re then []
      else if re = be then
        [\<lparr>Difference_Type = mem_diff_type le be,
          Difference_Direction = DifferenceDirectionLeft,
          Difference_Path = p, Difference_PathType = Entry_OBJECT\<rparr>]
      else if le = be then
        [\<lparr>Difference_Type = mem_diff_type re be,
          Difference_Direction = DifferenceDirectionRight,
          Difference_Path = p, Difference_PathType = Entry_OBJECT\<rparr>]
      else
        [\<lparr>Difference_Type = mem_diff_type le be,
          Difference_Direction = DifferenceDirectionConflict,
          Difference_Path = p, Difference_PathType = Entry_OBJECT\<rparr>])"

definition mem_Diff :: "string \<Rightarrow> string \<Rightarrow> string \<Rightarrow> mem \<Rightarrow> error + Differences" where
  "mem_Diff left right base s =
     (case (mem_trees s left, mem_trees s right, mem_trees s base) of
        (Some lt, Some rt, Some bt) \<Rightarrow>
          Inr (concat (map (mem_diff_path lt rt bt)
                 (remdups (map fst lt @ map fst rt @ map fst bt))))
      | _ \<Rightarrow> Inl ErrNotFound)"

fun mem_ancestors :: "nat \<Rightarrow> (string \<rightharpoonup> Commit) \<Rightarrow> string list \<Rightarrow> string list" where
  "mem_ancestors 0 cs frontier = frontier"
| "mem_ancestors (Suc n) cs frontier =
     (if frontier = [] then []
      else frontier @
        mem_ancestors n cs
          (concat (map (\<lambda>a. case cs a of None \<Rightarrow> [] | Some c \<Rightarrow> Commit_Parents c) frontier)))"

definition mem_FindLowestCommonAncestor ::
  "string \<Rightarrow> string \<Rightarrow> mem \<Rightarrow> error + Commit option" where
  "mem_FindLowestCommonAncestor a b s =
     (case filter (\<lambda>x. x \<in> set (mem_ancestors (Suc (Suc (Suc 0))) (mem_commits s) [b]))
             (mem_ancestors (Suc (Suc (Suc 0))) (mem_commits s) [a]) of
        [] \<Rightarrow> Inr None
      | x # xs \<Rightarrow>
          (case mem_commits s x of None \<Rightarrow> Inl ErrNotFound | Some c \<Rightarrow> Inr (Some c)))"

definition mem_validate :: "string \<Rightarrow> error option" where
  "mem_validate x = (if x = [] then Some (ErrOther ''invalid'') else None)"

definition mem_env :: "mem packages" where
  "mem_env =
     \<lparr>merkle_GetObject = mem_GetObject,
      merkle_GetEntry = mem_GetEntry,
      merkle_Update = mem_Update,
      merkle_Diff = mem_Diff,
      dag_FindLowestCommonAncestor = mem_FindLowestCommonAncestor,
      ident_IsHash = (\<lambda>r. take 1 r = ''#''),
      ident_Hash_Commit = (\<lambda>c. ''#'' @ Commit_Tree c @ ''|'' @ concat (Commit_Parents c)
                                 @ ''|'' @ Commit_Message c),
      ident_Hash_Object = (\<lambda>ob. ''o'' @ Object_Checksum ob),
      ident_Empty = [],
      pth_Basename = (\<lambda>p. last (strings_Split p)),
      pth_String = (\<lambda>p. p),
      ValidateRepoId = mem_validate,
      ValidateRef = mem_validate,
      ValidatePath = mem_validate,
      ValidateCommitMessage = mem_validate,
      rand_Float32 = 1 / 2\<rparr>"

definition mem_index :: "mem KVIndex" where
  "mem_index = \<lparr>kv = mem_tx, tsGenerator = 7\<rparr>"

definition mem_index_failing :: "mem KVIndex" where
  "mem_index_failing = \<lparr>kv = mem_tx_failing, tsGenerator = 7\<rparr>"


text \<open>
  A repository for the examples. Commit \<open>#1\<close> holds the object \<open>a\<close>; \<open>#2\<close> and
  \<open>#3\<close> each change it, differently. Branch \<open>main\<close> is at \<open>#1\<close>, \<open>dev\<close> at
  \<open>#2\<close>, \<open>hot\<close> at \<open>#3\<close>; branch \<open>dirty\<close> is at \<open>#1\<close> with a workspace root
  that is not its commit root, and branch \<open>wip\<close> has one staged write. Branch
  \<open>busy\<close> has a staged write of \<open>a\<close> and a staged tombstone at \<open>d\<close>. The
  workspace of \<open>gone\<close> holds an entry, and no branch of that name is recorded.
\<close>

definition ex_entry :: "string \<Rightarrow> string \<Rightarrow> Entry" where
  "ex_entry name addr =
     \<lparr>Entry_Name = name, Entry_Address = addr, Entry_Type = Entry_OBJECT,
      Entry_Timestamp = 1, Entry_Size = 3, Entry_Checksum = addr\<rparr>"

definition ex_object :: "string \<Rightarrow> Object" where
  "ex_object checksum =
     \<lparr>Object_PhysicalAddress = ''blk'' @ checksum, Object_Size = 3, Object_Checksum = checksum,
      Object_Metadata = Map.empty\<rparr>"

definition ex_commit :: "string \<Rightarrow> string \<Rightarrow> string list \<Rightarrow> Commit" where
  "ex_commit addr tree parents =
     \<lparr>Commit_Address = addr, Commit_Tree = tree, Commit_Parents = parents,
      Commit_Committer = ''u'', Commit_Message = ''msg'', Commit_Timestamp = 1,
      Commit_Metadata = Map.empty\<rparr>"

definition ex_branch :: "string \<Rightarrow> string \<Rightarrow> string \<Rightarrow> string \<Rightarrow> Branch" where
  "ex_branch name commit commitRoot workspaceRoot =
     \<lparr>Branch_Name = name, Branch_Commit = commit, Branch_CommitRoot = commitRoot,
      Branch_WorkspaceRoot = workspaceRoot\<rparr>"

definition ex_staged :: WorkspaceEntry where
  "ex_staged =
     \<lparr>WorkspaceEntry_Path = ''b'', WorkspaceEntry_Entry = Some (ex_entry ''b'' ''o4''),
      WorkspaceEntry_Tombstone = False\<rparr>"

definition ex_staged_a :: WorkspaceEntry where
  "ex_staged_a =
     \<lparr>WorkspaceEntry_Path = ''a'', WorkspaceEntry_Entry = Some (ex_entry ''a'' ''o4''),
      WorkspaceEntry_Tombstone = False\<rparr>"

definition ex_deleted :: WorkspaceEntry where
  "ex_deleted =
     \<lparr>WorkspaceEntry_Path = ''d'',
      WorkspaceEntry_Entry = Some
        \<lparr>Entry_Name = ''d'', Entry_Address = [], Entry_Type = Entry_OBJECT,
         Entry_Timestamp = 1, Entry_Size = 0, Entry_Checksum = []\<rparr>,
      WorkspaceEntry_Tombstone = True\<rparr>"

definition ex_store :: mem where
  "ex_store =
     \<lparr>mem_repo = Some (CreateRepo_repo ''r'' ''bucket'' ''main'' 1),
      mem_branches =
        [''main'' \<mapsto> ex_branch ''main'' ''#1'' ''T1'' ''T1'',
         ''dev'' \<mapsto> ex_branch ''dev'' ''#2'' ''T2'' ''T2'',
         ''hot'' \<mapsto> ex_branch ''hot'' ''#3'' ''T3'' ''T3'',
         ''dirty'' \<mapsto> ex_branch ''dirty'' ''#1'' ''T1'' ''T2'',
         ''wip'' \<mapsto> ex_branch ''wip'' ''#1'' ''T1'' ''T1'',
         ''busy'' \<mapsto> ex_branch ''busy'' ''#1'' ''T1'' ''T1''],
      mem_commits =
        [''#1'' \<mapsto> ex_commit ''#1'' ''T1'' [],
         ''#2'' \<mapsto> ex_commit ''#2'' ''T2'' [''#1''],
         ''#3'' \<mapsto> ex_commit ''#3'' ''T3'' [''#1'']],
      mem_objects =
        [''o1'' \<mapsto> ex_object ''1'', ''o2'' \<mapsto> ex_object ''2'',
         ''o3'' \<mapsto> ex_object ''3'', ''o4'' \<mapsto> ex_object ''4''],
      mem_workspace =
        (\<lambda>b. if b = ''wip'' \<or> b = ''gone'' then [(''b'', ex_staged)]
             else if b = ''busy'' then [(''a'', ex_staged_a), (''d'', ex_deleted)]
             else []),
      mem_trees =
        [''T1'' \<mapsto> [(''a'', ex_entry ''a'' ''o1'')],
         [] \<mapsto> [],
         ''T2'' \<mapsto> [(''a'', ex_entry ''a'' ''o2'')],
         ''T3'' \<mapsto> [(''a'', ex_entry ''a'' ''o3'')]]\<rparr>"

text \<open>The same repository with a partial-commit ratio of 0: no write folds.\<close>

definition ex_lazy_repo :: Repo where
  "ex_lazy_repo = (CreateRepo_repo ''r'' ''bucket'' ''main'' 1)\<lparr>Repo_PartialCommitRatio := 0\<rparr>"

definition ex_store_lazy :: mem where
  "ex_store_lazy = ex_store\<lparr>mem_repo := Some ex_lazy_repo\<rparr>"

definition ex_tombstone :: WorkspaceEntry where
  "ex_tombstone =
     \<lparr>WorkspaceEntry_Path = ''a'',
      WorkspaceEntry_Entry = Some
        \<lparr>Entry_Name = ''a'', Entry_Address = [], Entry_Type = Entry_OBJECT,
         Entry_Timestamp = 7, Entry_Size = 0, Entry_Checksum = []\<rparr>,
      WorkspaceEntry_Tombstone = True\<rparr>"

definition ex_left :: Difference where
  "ex_left =
     \<lparr>Difference_Type = DifferenceTypeChanged, Difference_Direction = DifferenceDirectionLeft,
      Difference_Path = ''a'', Difference_PathType = Entry_OBJECT\<rparr>"

definition ex_conflict :: Difference where
  "ex_conflict =
     \<lparr>Difference_Type = DifferenceTypeChanged,
      Difference_Direction = DifferenceDirectionConflict,
      Difference_Path = ''a'', Difference_PathType = Entry_OBJECT\<rparr>"

definition ex_merged :: WorkspaceEntry where
  "ex_merged =
     \<lparr>WorkspaceEntry_Path = ''a'', WorkspaceEntry_Entry = Some (ex_entry ''a'' ''o2''),
      WorkspaceEntry_Tombstone = False\<rparr>"

definition ex_committed :: Commit where
  "ex_committed =
     \<lparr>Commit_Address = ''#b=o4;a=o1;|#1|m'', Commit_Tree = ''b=o4;a=o1;'',
      Commit_Parents = [''#1''], Commit_Committer = ''u'', Commit_Message = ''m'',
      Commit_Timestamp = 7, Commit_Metadata = Map.empty\<rparr>"



lemmas mem_defs =
  mem_tx_def mem_tx_failing_def mem_env_def mem_index_def mem_index_failing_def
  mem_read_def mem_validate_def mem_GetEntry_def mem_GetObject_def mem_Update_def
  mem_tree_address_def mem_Diff_def mem_diff_path_def mem_diff_type_def
  mem_FindLowestCommonAncestor_def

lemmas ex_defs =
  ex_store_def ex_branch_def ex_commit_def ex_entry_def ex_object_def ex_staged_def
  ex_staged_a_def ex_deleted_def
  CreateRepo_repo_def DefaultPartialCommitRatio_def

section \<open>Properties\<close>

subsection \<open>The in-memory store obeys the laws\<close>

lemma mem_clears_workspace: "clears_workspace mem_tx"
  by (simp add: clears_workspace_def mem_tx_def)

lemma mem_writes_branch: "writes_branch mem_tx"
  by (auto simp add: writes_branch_def mem_tx_def mem_read_def)


lemma mem_writes_commit: "writes_commit mem_tx"
  by (auto simp add: writes_commit_def mem_tx_def mem_read_def)


lemma mem_Update_keeps:
  "mem_branches (snd (mem_Update r wes s)) = mem_branches s"
  "mem_workspace (snd (mem_Update r wes s)) = mem_workspace s"
  "mem_commits (snd (mem_Update r wes s)) = mem_commits s"
  "mem_repo (snd (mem_Update r wes s)) = mem_repo s"
  by (simp_all add: mem_Update_def Let_def split: option.splits)

subsection \<open>Facts about the example repository\<close>

lemma ex_validate:
  "ValidateRepoId mem_env ''r'' = None" "ValidateRef mem_env ''dev'' = None"
  "ValidateRef mem_env ''hot'' = None" "ValidateRef mem_env ''main'' = None"
  "ValidateRef mem_env ''wip'' = None" "ValidateRef mem_env ''dirty'' = None"
  "ValidatePath mem_env ''a'' = None" "ValidatePath mem_env ''b'' = None"
  "ValidateRef mem_env ''busy'' = None" "ValidatePath mem_env ''d'' = None"
  "ValidatePath mem_env ''zz'' = None" "ValidateRef mem_env ''#2'' = None"
  "ValidateCommitMessage mem_env ''m'' = None" "ValidateRef mem_env ''nobranch'' = None"
  by (simp_all add: mem_env_def mem_validate_def)

lemma ex_doDiff_hot:
  "doDiff mem_env mem_tx ''r'' ''dev'' ''hot'' True ex_store = Inr [ex_conflict]"
  by (simp add: doDiff_def resolveRef_def mem_defs ex_defs Let_def ex_conflict_def)

lemma ex_doDiff_main:
  "doDiff mem_env mem_tx ''r'' ''dev'' ''main'' True ex_store = Inr [ex_left]"
  by (simp add: doDiff_def resolveRef_def mem_defs ex_defs Let_def ex_left_def)

lemma sum_case_id: "(case x of Inl e \<Rightarrow> Inl e | Inr v \<Rightarrow> Inr v) = x"
  by (cases x) simp_all

lemma ex_reads:
  "ReadRepo (kv mem_index) ex_store = Inr (CreateRepo_repo ''r'' ''bucket'' ''main'' 1)"
  "ReadBranch (kv mem_index) ''main'' ex_store = Inr (ex_branch ''main'' ''#1'' ''T1'' ''T1'')"
  "ReadBranch (kv mem_index) ''wip'' ex_store = Inr (ex_branch ''wip'' ''#1'' ''T1'' ''T1'')"
  "ReadBranch (kv mem_index) ''busy'' ex_store = Inr (ex_branch ''busy'' ''#1'' ''T1'' ''T1'')"
  "ReadFromWorkspace (kv mem_index) ''main'' ''zz'' ex_store = Inl ErrNotFound"
  "ReadFromWorkspace (kv mem_index) ''main'' ''a'' ex_store = Inl ErrNotFound"
  "ReadFromWorkspace (kv mem_index) ''wip'' ''a'' ex_store = Inl ErrNotFound"
  "ReadFromWorkspace (kv mem_index) ''wip'' ''b'' ex_store = Inr ex_staged"
  "ReadFromWorkspace (kv mem_index) ''busy'' ''a'' ex_store = Inr ex_staged_a"
  "ReadFromWorkspace (kv mem_index) ''busy'' ''d'' ex_store = Inr ex_deleted"
  by (simp_all add: mem_index_def mem_tx_def ex_store_def mem_read_def)

lemma ex_tree:
  "merkle_GetEntry mem_env ''T1'' ''zz'' Entry_OBJECT ex_store = Inl ErrNotFound"
  "merkle_GetEntry mem_env ''T1'' ''b'' Entry_OBJECT ex_store = Inl ErrNotFound"
  "merkle_GetEntry mem_env ''T1'' ''d'' Entry_OBJECT ex_store = Inl ErrNotFound"
  "merkle_GetEntry mem_env ''T1'' ''a'' Entry_OBJECT ex_store = Inr (ex_entry ''a'' ''o1'')"
  by (simp_all add: mem_env_def mem_GetEntry_def ex_store_def ex_entry_def)

lemma ex_flags:
  "\<not> WorkspaceEntry_Tombstone ex_staged" "\<not> WorkspaceEntry_Tombstone ex_staged_a"
  "WorkspaceEntry_Tombstone ex_deleted" "xerrors_Is ErrNotFound ErrNotFound"
  "Branch_WorkspaceRoot (ex_branch n c r w) = w" "Branch_Name (ex_branch n c r w) = n"
  by (simp_all add: ex_staged_def ex_staged_a_def ex_deleted_def ex_branch_def)

lemma ex_resolve:
  "resolveRef mem_env (kv mem_index) ''wip'' ex_store =
     Inr \<lparr>reference_commit = ex_commit ''#1'' ''T1'' [],
          reference_branch = Some (ex_branch ''wip'' ''#1'' ''T1'' ''T1''),
          reference_isBranch = True\<rparr>"
  "resolveRef mem_env (kv mem_index) ''busy'' ex_store =
     Inr \<lparr>reference_commit = ex_commit ''#1'' ''T1'' [],
          reference_branch = Some (ex_branch ''busy'' ''#1'' ''T1'' ''T1''),
          reference_isBranch = True\<rparr>"
  "resolveRef mem_env (kv mem_index) ''#2'' ex_store =
     Inr \<lparr>reference_commit = ex_commit ''#2'' ''T2'' [''#1''],
          reference_branch = None, reference_isBranch = False\<rparr>"
  by (simp_all add: resolveRef_def mem_index_def mem_tx_def mem_env_def ex_store_def
        mem_read_def ex_branch_def Let_def)

lemma ex_objects:
  "ReadObject (kv mem_index) (Entry_GetAddress (WorkspaceEntry_Entry ex_staged)) ex_store
     = Inr (ex_object ''4'')"
  "merkle_GetObject mem_env ''T1'' ''a'' ex_store = Inr (ex_object ''1'')"
  "merkle_GetObject mem_env ''T2'' ''a'' ex_store = Inr (ex_object ''2'')"
  by (simp_all add: mem_index_def mem_tx_def mem_env_def mem_GetObject_def mem_GetEntry_def
        ex_store_def mem_read_def ex_staged_def ex_entry_def Entry_GetAddress_def)

lemma ex_merge_main:
  "fst (KVIndex_Merge mem_env mem_index ''r'' ''dev'' ''main'' ''u'' ex_store) = ([ex_left], None)"
  "ReadBranch mem_tx ''main''
     (snd (KVIndex_Merge mem_env mem_index ''r'' ''dev'' ''main'' ''u'' ex_store))
   = Inr (ex_branch ''main'' ''#a=o2;|#1#2|Merge branch dev into main'' ''a=o2;'' ''a=o2;'')"
  by (simp_all add: KVIndex_Merge_def Merge_tx_def Merge_body_def RepoTransact_def
        doDiff_def resolveRef_def ex_left_def doCommitUpdates_def mem_defs ex_defs Let_def)

lemma ex_lazy_reads:
  "ReadRepo (kv mem_index) ex_store_lazy = Inr ex_lazy_repo"
  "ReadBranch (kv mem_index) b ex_store_lazy = ReadBranch (kv mem_index) b ex_store"
  "ReadFromWorkspace (kv mem_index) b p ex_store_lazy
     = ReadFromWorkspace (kv mem_index) b p ex_store"
  "merkle_GetEntry mem_env r p t ex_store_lazy = merkle_GetEntry mem_env r p t ex_store"
  "\<not> shouldPartiallyCommit mem_env ex_lazy_repo"
  "DeleteObject_tombstone mem_env ''a'' 7 = ex_tombstone"
  "tsGenerator mem_index = 7"
  by (simp_all add: ex_store_lazy_def mem_index_def mem_tx_def mem_env_def mem_GetEntry_def mem_read_def
        shouldPartiallyCommit_def ex_lazy_repo_def CreateRepo_repo_def
        DeleteObject_tombstone_def ex_tombstone_def)

lemma ex_lazy_after:
  "ReadFromWorkspace (kv mem_index) ''wip'' ''b''
     (snd (DeleteWorkspacePath (kv mem_index) ''wip'' ''b'' ex_store_lazy)) = Inl ErrNotFound"
  "ListWorkspace (kv mem_index) ''wip''
     (snd (DeleteWorkspacePath (kv mem_index) ''wip'' ''b'' ex_store_lazy)) = Inr []"
  "ListWorkspace (kv mem_index) ''main''
     (snd (WriteToWorkspacePath (kv mem_index) ''main'' ''a'' ex_tombstone ex_store_lazy))
     = Inr [ex_tombstone]"
  "ListWorkspace (kv mem_index) ''busy''
     (snd (WriteToWorkspacePath (kv mem_index) ''busy'' ''a'' ex_tombstone
        (snd (DeleteWorkspacePath (kv mem_index) ''busy'' ''a'' ex_store_lazy))))
     = Inr [ex_tombstone, ex_deleted]"
  by (simp_all add: ex_store_lazy_def mem_index_def mem_tx_def mem_read_def ex_store_def)

lemma ex_delete_folded:
  "fst (KVIndex_DeleteObject mem_env mem_index ''r'' ''main'' ''a'' ex_store) = None"
  "ListWorkspace (kv mem_index) ''main''
     (snd (KVIndex_DeleteObject mem_env mem_index ''r'' ''main'' ''a'' ex_store)) = Inr []"
  "ReadBranch (kv mem_index) ''main''
     (snd (KVIndex_DeleteObject mem_env mem_index ''r'' ''main'' ''a'' ex_store))
     = Inr (ex_branch ''main'' ''#1'' ''T1'' [])"
  "merkle_GetEntry mem_env [] ''a'' Entry_OBJECT
     (snd (KVIndex_DeleteObject mem_env mem_index ''r'' ''main'' ''a'' ex_store))
     = Inl ErrNotFound"
  by (simp_all add: KVIndex_DeleteObject_def DeleteObject_tx_def
        DeleteObject_merkle_def DeleteObject_decide_def DeleteObject_stage_def
        DeleteObject_tombstone_def only_err_def RepoTransact_def
        return_nil_def writeEntryToWorkspace_def shouldPartiallyCommit_def partialCommit_def
        mem_defs ex_defs Let_def)

subsection \<open>Partial commit\<close>

lemma partialCommit_empty:
  "ListWorkspace tx b s = Inr [] \<Longrightarrow> partialCommit env tx b s = (None, s)"
  by (simp add: partialCommit_def)

text \<open>The ways in which \<open>partialCommit\<close> returns without an error.\<close>

lemma partialCommit_ok_cases:
  assumes "partialCommit env tx b s = (None, s')"
  shows "(s' = s \<and> (ListWorkspace tx b s = Inr [] \<or>
            (\<exists>err. ReadBranch tx b s = Inl err \<and> xerrors_Is err ErrNotFound)))
         \<or> (\<exists>l bd t s1 s2. ListWorkspace tx b s = Inr l \<and> l \<noteq> [] \<and> ReadBranch tx b s = Inr bd
              \<and> merkle_Update env (Branch_WorkspaceRoot bd) l s = (Inr t, s1)
              \<and> ClearWorkspace tx b s1 = (None, s2)
              \<and> WriteBranch tx b \<lparr>Branch_Name = b, Branch_Commit = Branch_Commit bd,
                    Branch_CommitRoot = Branch_CommitRoot bd, Branch_WorkspaceRoot = t\<rparr> s2
                  = (None, s'))"
  using assms
  by (auto simp add: partialCommit_def split: sum.splits if_splits prod.splits option.splits)

lemma partialCommit_again:
  assumes laws: "clears_workspace tx" "writes_branch tx"
    and ok: "partialCommit env tx b s = (None, s')"
  shows "partialCommit env tx b s' = (None, s')"
proof -
  from partialCommit_ok_cases [OF ok] show ?thesis
  proof (elim disjE conjE exE)
    assume "s' = s" "ListWorkspace tx b s = Inr []"
    then show ?thesis by (simp add: partialCommit_empty)
  next
    fix err assume "s' = s" "ReadBranch tx b s = Inl err" "xerrors_Is err ErrNotFound"
    with ok show ?thesis by simp
  next
    fix l bd t s1 s2
    assume c: "ClearWorkspace tx b s1 = (None, s2)"
      and w: "WriteBranch tx b \<lparr>Branch_Name = b, Branch_Commit = Branch_Commit bd,
                Branch_CommitRoot = Branch_CommitRoot bd, Branch_WorkspaceRoot = t\<rparr> s2
              = (None, s')"
    from laws(1) c have "ListWorkspace tx b s2 = Inr []"
      by (auto simp add: clears_workspace_def)
    moreover from laws(2) w have "ListWorkspace tx b s' = ListWorkspace tx b s2"
      by (auto simp add: writes_branch_def)
    ultimately show ?thesis by (simp add: partialCommit_empty)
  qed
qed

text \<open>
  Claim C6. Over a store that empties a cleared workspace and keeps workspaces when
  a branch is written, partial commit is idempotent: running it again after it has
  returned gives the result and the store of the single run. On an empty workspace it
  returns at once and leaves the store as it was. A run that folds entries writes the
  branch with the commit and the commit root it read and the new tree root as
  workspace root, and leaves the workspace empty.
\<close>

theorem partialCommit_idempotent:
  assumes "clears_workspace tx" and "writes_branch tx"
  shows "partialCommit_twice env tx b s = partialCommit env tx b s
    \<and> (ListWorkspace tx b s = Inr [] \<longrightarrow> partialCommit env tx b s = (None, s))
    \<and> (ListWorkspace tx b s = Inr l \<and> l \<noteq> [] \<and> ReadBranch tx b s = Inr bd
         \<and> merkle_Update env (Branch_WorkspaceRoot bd) l s = (Inr t, s1)
         \<and> ClearWorkspace tx b s1 = (None, s2)
         \<and> WriteBranch tx b \<lparr>Branch_Name = b, Branch_Commit = Branch_Commit bd,
               Branch_CommitRoot = Branch_CommitRoot bd, Branch_WorkspaceRoot = t\<rparr> s2
             = (None, s3)
         \<longrightarrow> partialCommit env tx b s = (None, s3)
             \<and> ReadBranch tx b s3 =
                 Inr \<lparr>Branch_Name = b, Branch_Commit = Branch_Commit bd,
                      Branch_CommitRoot = Branch_CommitRoot bd, Branch_WorkspaceRoot = t\<rparr>
             \<and> ListWorkspace tx b s3 = Inr [])"
proof (intro conjI impI)
  show "partialCommit_twice env tx b s = partialCommit env tx b s"
  proof (cases "partialCommit env tx b s")
    case (Pair r s')
    show ?thesis
    proof (cases r)
      case None
      with Pair assms show ?thesis
        by (simp add: partialCommit_twice_def partialCommit_again)
    next
      case (Some err)
      with Pair show ?thesis by (simp add: partialCommit_twice_def)
    qed
  qed
next
  assume "ListWorkspace tx b s = Inr []"
  then show "partialCommit env tx b s = (None, s)" by (rule partialCommit_empty)
next
  assume h: "ListWorkspace tx b s = Inr l \<and> l \<noteq> [] \<and> ReadBranch tx b s = Inr bd
         \<and> merkle_Update env (Branch_WorkspaceRoot bd) l s = (Inr t, s1)
         \<and> ClearWorkspace tx b s1 = (None, s2)
         \<and> WriteBranch tx b \<lparr>Branch_Name = b, Branch_Commit = Branch_Commit bd,
               Branch_CommitRoot = Branch_CommitRoot bd, Branch_WorkspaceRoot = t\<rparr> s2
             = (None, s3)"
  then show "partialCommit env tx b s = (None, s3)"
    by (simp add: partialCommit_def)
  from h assms(2) show "ReadBranch tx b s3 =
                 Inr \<lparr>Branch_Name = b, Branch_Commit = Branch_Commit bd,
                      Branch_CommitRoot = Branch_CommitRoot bd, Branch_WorkspaceRoot = t\<rparr>"
    by (auto simp add: writes_branch_def)
  from h assms(1) have "ListWorkspace tx b s2 = Inr []"
    by (auto simp add: clears_workspace_def)
  moreover from h assms(2) have "ListWorkspace tx b s3 = ListWorkspace tx b s2"
    by (auto simp add: writes_branch_def)
  ultimately show "ListWorkspace tx b s3 = Inr []" by simp
qed

theorem partialCommit_idempotent_witness:
  "clears_workspace mem_tx \<and> writes_branch mem_tx
   \<and> partialCommit_twice mem_env mem_tx ''wip'' ex_store
       = partialCommit mem_env mem_tx ''wip'' ex_store
   \<and> ListWorkspace mem_tx ''main'' ex_store = Inr []
   \<and> partialCommit mem_env mem_tx ''main'' ex_store = (None, ex_store)
   \<and> ListWorkspace mem_tx ''wip'' ex_store = Inr [ex_staged] \<and> [ex_staged] \<noteq> []
   \<and> ReadBranch mem_tx ''wip'' ex_store = Inr (ex_branch ''wip'' ''#1'' ''T1'' ''T1'')
   \<and> fst (merkle_Update mem_env ''T1'' [ex_staged] ex_store) = Inr ''b=o4;a=o1;''
   \<and> fst (partialCommit mem_env mem_tx ''wip'' ex_store) = None
   \<and> ReadBranch mem_tx ''wip'' (snd (partialCommit mem_env mem_tx ''wip'' ex_store))
       = Inr (ex_branch ''wip'' ''#1'' ''T1'' ''b=o4;a=o1;'')
   \<and> ListWorkspace mem_tx ''wip'' (snd (partialCommit mem_env mem_tx ''wip'' ex_store)) = Inr []"
proof -
  define s1 where "s1 = snd (merkle_Update mem_env ''T1'' [ex_staged] ex_store)"
  define s2 where "s2 = snd (ClearWorkspace mem_tx ''wip'' s1)"
  define s3 where
    "s3 = snd (WriteBranch mem_tx ''wip'' (ex_branch ''wip'' ''#1'' ''T1'' ''b=o4;a=o1;'') s2)"
  have lm: "ListWorkspace mem_tx ''main'' ex_store = Inr []"
    by (simp add: mem_tx_def ex_store_def)
  have lw: "ListWorkspace mem_tx ''wip'' ex_store = Inr [ex_staged]"
    by (simp add: mem_tx_def ex_store_def)
  have bw: "ReadBranch mem_tx ''wip'' ex_store = Inr (ex_branch ''wip'' ''#1'' ''T1'' ''T1'')"
    by (simp add: mem_tx_def ex_store_def mem_read_def)
  have fu: "fst (merkle_Update mem_env ''T1'' [ex_staged] ex_store) = Inr ''b=o4;a=o1;''"
    by (simp add: mem_env_def mem_Update_def ex_store_def ex_staged_def ex_entry_def
          mem_tree_address_def Let_def)
  have u: "merkle_Update mem_env (Branch_WorkspaceRoot (ex_branch ''wip'' ''#1'' ''T1'' ''T1''))
             [ex_staged] ex_store = (Inr ''b=o4;a=o1;'', s1)"
    using fu by (simp add: s1_def ex_branch_def prod_eq_iff)
  have c: "ClearWorkspace mem_tx ''wip'' s1 = (None, s2)"
    by (simp add: s2_def mem_tx_def)
  have w: "WriteBranch mem_tx ''wip''
             \<lparr>Branch_Name = ''wip'',
              Branch_Commit = Branch_Commit (ex_branch ''wip'' ''#1'' ''T1'' ''T1''),
              Branch_CommitRoot = Branch_CommitRoot (ex_branch ''wip'' ''#1'' ''T1'' ''T1''),
              Branch_WorkspaceRoot = ''b=o4;a=o1;''\<rparr> s2 = (None, s3)"
    by (simp add: s3_def mem_tx_def ex_branch_def)
  note t = partialCommit_idempotent [OF mem_clears_workspace mem_writes_branch]
  from t [of mem_env "''main''" ex_store] lm
  have m: "partialCommit mem_env mem_tx ''main'' ex_store = (None, ex_store)" by blast
  have n: "[ex_staged] \<noteq> []" by simp
  from t [of mem_env "''wip''" ex_store "[ex_staged]" "ex_branch ''wip'' ''#1'' ''T1'' ''T1''"
            "''b=o4;a=o1;''" s1 s2 s3] lw n bw u c w
  have f: "partialCommit mem_env mem_tx ''wip'' ex_store = (None, s3)
     \<and> ReadBranch mem_tx ''wip'' s3 =
         Inr \<lparr>Branch_Name = ''wip'',
              Branch_Commit = Branch_Commit (ex_branch ''wip'' ''#1'' ''T1'' ''T1''),
              Branch_CommitRoot = Branch_CommitRoot (ex_branch ''wip'' ''#1'' ''T1'' ''T1''),
              Branch_WorkspaceRoot = ''b=o4;a=o1;''\<rparr>
     \<and> ListWorkspace mem_tx ''wip'' s3 = Inr []"
    by blast
  from t [of mem_env "''wip''" ex_store]
  have tw: "partialCommit_twice mem_env mem_tx ''wip'' ex_store
            = partialCommit mem_env mem_tx ''wip'' ex_store"
    by blast
  from f have f2: "fst (partialCommit mem_env mem_tx ''wip'' ex_store) = None"
    "ReadBranch mem_tx ''wip'' (snd (partialCommit mem_env mem_tx ''wip'' ex_store))
       = Inr (ex_branch ''wip'' ''#1'' ''T1'' ''b=o4;a=o1;'')"
    "ListWorkspace mem_tx ''wip'' (snd (partialCommit mem_env mem_tx ''wip'' ex_store)) = Inr []"
    by (simp_all add: ex_branch_def)
  from m f2 tw lm lw n bw fu mem_clears_workspace mem_writes_branch show ?thesis by blast
qed

text \<open>
  Claim C10. When the workspace of a branch name lists entries and the store reports
  the branch record as not found, partial commit returns no error and leaves the
  store as it was: the workspace is not cleared and no branch or tree is written.
\<close>

theorem partialCommit_branch_missing:
  assumes "ListWorkspace tx b s = Inr wsEntries" and "wsEntries \<noteq> []"
    and "ReadBranch tx b s = Inl err" and "xerrors_Is err ErrNotFound"
  shows "partialCommit env tx b s = (None, s)
         \<and> ListWorkspace tx b (snd (partialCommit env tx b s)) = Inr wsEntries"
  using assms by (simp add: partialCommit_def)

theorem partialCommit_branch_missing_witness:
  "ListWorkspace mem_tx ''gone'' ex_store = Inr [ex_staged] \<and> [ex_staged] \<noteq> []
   \<and> ReadBranch mem_tx ''gone'' ex_store = Inl ErrNotFound
   \<and> xerrors_Is ErrNotFound ErrNotFound
   \<and> partialCommit mem_env mem_tx ''gone'' ex_store = (None, ex_store)
   \<and> ListWorkspace mem_tx ''gone'' (snd (partialCommit mem_env mem_tx ''gone'' ex_store))
       = Inr [ex_staged]"
proof -
  have l: "ListWorkspace mem_tx ''gone'' ex_store = Inr [ex_staged]"
    by (simp add: mem_tx_def ex_store_def)
  have n: "[ex_staged] \<noteq> []" by simp
  have r: "ReadBranch mem_tx ''gone'' ex_store = Inl ErrNotFound"
    by (simp add: mem_tx_def ex_store_def mem_read_def)
  have i: "xerrors_Is ErrNotFound ErrNotFound" by simp
  from partialCommit_branch_missing [OF l n r i, of mem_env] l n r i show ?thesis by simp
qed

subsection \<open>Reference resolution\<close>

text \<open>
  Claim C7. A reference that is syntactically a hash and names a commit resolves to
  that commit. Otherwise (not a hash, or a hash under which the store finds no
  commit) it is looked up as a branch: a branch of that name resolves to the branch
  with the commit it points to, and where no branch is read the error of that read is
  the result. Resolution takes the read-only operations and returns no store: in a
  read-only transaction it leaves the store as it was.
\<close>

theorem resolveRef_cases:
  "(ident_IsHash env ref \<and> ReadCommit tx ref s = Inr c \<longrightarrow>
      resolveRef env tx ref s =
        Inr \<lparr>reference_commit = c, reference_branch = None, reference_isBranch = False\<rparr>)
   \<and> ((\<not> ident_IsHash env ref
        \<or> (\<exists>e. ReadCommit tx ref s = Inl e \<and> xerrors_Is e ErrNotFound)) \<longrightarrow>
        (\<forall>b c. ReadBranch tx ref s = Inr b \<and> ReadCommit tx (Branch_Commit b) s = Inr c \<longrightarrow>
           resolveRef env tx ref s =
             Inr \<lparr>reference_commit = c, reference_branch = Some b, reference_isBranch = True\<rparr>)
        \<and> (\<forall>e. ReadBranch tx ref s = Inl e \<longrightarrow> resolveRef env tx ref s = Inl e))
   \<and> snd (RepoReadTransact (resolveRef env tx ref) s) = s"
  by (auto simp add: resolveRef_def RepoReadTransact_def Let_def)

theorem resolveRef_cases_witness:
  "(ident_IsHash mem_env ''#2''
    \<and> ReadCommit mem_tx ''#2'' ex_store = Inr (ex_commit ''#2'' ''T2'' [''#1''])
    \<and> resolveRef mem_env mem_tx ''#2'' ex_store =
        Inr \<lparr>reference_commit = ex_commit ''#2'' ''T2'' [''#1''], reference_branch = None,
             reference_isBranch = False\<rparr>)
   \<and> (\<not> ident_IsHash mem_env ''dev''
      \<and> ReadBranch mem_tx ''dev'' ex_store = Inr (ex_branch ''dev'' ''#2'' ''T2'' ''T2'')
      \<and> ReadCommit mem_tx (Branch_Commit (ex_branch ''dev'' ''#2'' ''T2'' ''T2'')) ex_store
          = Inr (ex_commit ''#2'' ''T2'' [''#1''])
      \<and> resolveRef mem_env mem_tx ''dev'' ex_store =
        Inr \<lparr>reference_commit = ex_commit ''#2'' ''T2'' [''#1''],
             reference_branch = Some (ex_branch ''dev'' ''#2'' ''T2'' ''T2''),
             reference_isBranch = True\<rparr>)
   \<and> (ident_IsHash mem_env ''#9'' \<and> ReadCommit mem_tx ''#9'' ex_store = Inl ErrNotFound
      \<and> xerrors_Is ErrNotFound ErrNotFound
      \<and> ReadBranch mem_tx ''#9'' ex_store = Inl ErrNotFound
      \<and> resolveRef mem_env mem_tx ''#9'' ex_store = Inl ErrNotFound)
   \<and> snd (RepoReadTransact (resolveRef mem_env mem_tx ''dev'') ex_store) = ex_store"
proof -
  have h1: "ident_IsHash mem_env ''#2''" "\<not> ident_IsHash mem_env ''dev''"
    "ident_IsHash mem_env ''#9''"
    by (simp_all add: mem_env_def)
  have c2: "ReadCommit mem_tx ''#2'' ex_store = Inr (ex_commit ''#2'' ''T2'' [''#1''])"
    by (simp add: mem_tx_def ex_store_def mem_read_def)
  have bd: "ReadBranch mem_tx ''dev'' ex_store = Inr (ex_branch ''dev'' ''#2'' ''T2'' ''T2'')"
    by (simp add: mem_tx_def ex_store_def mem_read_def)
  have cd: "ReadCommit mem_tx (Branch_Commit (ex_branch ''dev'' ''#2'' ''T2'' ''T2'')) ex_store
          = Inr (ex_commit ''#2'' ''T2'' [''#1''])"
    using c2 by (simp add: ex_branch_def)
  have c9: "ReadCommit mem_tx ''#9'' ex_store = Inl ErrNotFound"
    by (simp add: mem_tx_def ex_store_def mem_read_def)
  have b9: "ReadBranch mem_tx ''#9'' ex_store = Inl ErrNotFound"
    by (simp add: mem_tx_def ex_store_def mem_read_def)
  have i: "xerrors_Is ErrNotFound ErrNotFound" by simp
  from resolveRef_cases [of mem_env "''#2''" mem_tx ex_store "ex_commit ''#2'' ''T2'' [''#1'']"]
       resolveRef_cases [of mem_env "''dev''" mem_tx ex_store]
       resolveRef_cases [of mem_env "''#9''" mem_tx ex_store]
       h1 c2 bd cd c9 b9 i
  show ?thesis by auto
qed

subsection \<open>Merge\<close>

lemma Merge_scan_eq:
  "Merge_scan df isConflict ops =
     (isConflict \<or> (\<exists>d \<in> set df. Difference_Direction d = DifferenceDirectionConflict),
      ops @ filter (\<lambda>d. Difference_Direction d \<noteq> DifferenceDirectionRight) df)"
  by (induction df arbitrary: isConflict ops) auto

text \<open>
  Claim C1. With valid arguments, a destination branch that the store returns and a
  workspace listing that it returns: when the commit root of the destination differs
  from its workspace root, or the listing is not empty, the transaction of Merge
  returns DestinationNotCommitted and the store is as it was, so no merge commit is
  written and the destination is not advanced; Merge returns that error with no
  differences. When the roots are equal and the listing is empty, the transaction
  goes on with the computation of the difference.
\<close>

theorem Merge_destination_check:
  assumes "ValidateRepoId env repoId = None" and "ValidateRef env source = None"
    and "ValidateRef env destination = None"
    and "ReadBranch (kv index) destination s = Inr destinationBranch"
    and "ListWorkspace (kv index) destination s = Inr l"
  shows "(Branch_CommitRoot destinationBranch \<noteq> Branch_WorkspaceRoot destinationBranch
            \<or> l \<noteq> [] \<longrightarrow>
            Merge_tx env (kv index) repoId source destination userId (tsGenerator index) s =
              ([], Inl ErrDestinationNotCommitted, s)
          \<and> KVIndex_Merge env index repoId source destination userId s =
              (([], Some ErrDestinationNotCommitted), s))
       \<and> (Branch_CommitRoot destinationBranch = Branch_WorkspaceRoot destinationBranch
            \<and> l = [] \<longrightarrow>
            Merge_tx env (kv index) repoId source destination userId (tsGenerator index) s =
              Merge_body env (kv index) repoId source destination userId (tsGenerator index)
                destinationBranch s)"
  using assms
  by (auto simp add: Merge_tx_def KVIndex_Merge_def RepoTransact_def)

theorem Merge_destination_check_witness:
  "ValidateRepoId mem_env ''r'' = None \<and> ValidateRef mem_env ''dev'' = None
   \<and> ValidateRef mem_env ''dirty'' = None \<and> ValidateRef mem_env ''wip'' = None
   \<and> ValidateRef mem_env ''main'' = None
   \<and> ReadBranch (kv mem_index) ''dirty'' ex_store = Inr (ex_branch ''dirty'' ''#1'' ''T1'' ''T2'')
   \<and> ListWorkspace (kv mem_index) ''dirty'' ex_store = Inr []
   \<and> Branch_CommitRoot (ex_branch ''dirty'' ''#1'' ''T1'' ''T2'')
       \<noteq> Branch_WorkspaceRoot (ex_branch ''dirty'' ''#1'' ''T1'' ''T2'')
   \<and> KVIndex_Merge mem_env mem_index ''r'' ''dev'' ''dirty'' ''u'' ex_store =
       (([], Some ErrDestinationNotCommitted), ex_store)
   \<and> ReadBranch (kv mem_index) ''wip'' ex_store = Inr (ex_branch ''wip'' ''#1'' ''T1'' ''T1'')
   \<and> ListWorkspace (kv mem_index) ''wip'' ex_store = Inr [ex_staged]
   \<and> KVIndex_Merge mem_env mem_index ''r'' ''dev'' ''wip'' ''u'' ex_store =
       (([], Some ErrDestinationNotCommitted), ex_store)
   \<and> ReadBranch (kv mem_index) ''main'' ex_store = Inr (ex_branch ''main'' ''#1'' ''T1'' ''T1'')
   \<and> ListWorkspace (kv mem_index) ''main'' ex_store = Inr []
   \<and> Branch_CommitRoot (ex_branch ''main'' ''#1'' ''T1'' ''T1'')
       = Branch_WorkspaceRoot (ex_branch ''main'' ''#1'' ''T1'' ''T1'')
   \<and> Merge_tx mem_env (kv mem_index) ''r'' ''dev'' ''main'' ''u'' (tsGenerator mem_index) ex_store =
       Merge_body mem_env (kv mem_index) ''r'' ''dev'' ''main'' ''u'' (tsGenerator mem_index)
         (ex_branch ''main'' ''#1'' ''T1'' ''T1'') ex_store
   \<and> fst (KVIndex_Merge mem_env mem_index ''r'' ''dev'' ''main'' ''u'' ex_store)
       = ([ex_left], None)"
proof -
  have b: "ReadBranch (kv mem_index) ''dirty'' ex_store
             = Inr (ex_branch ''dirty'' ''#1'' ''T1'' ''T2'')"
    "ReadBranch (kv mem_index) ''wip'' ex_store = Inr (ex_branch ''wip'' ''#1'' ''T1'' ''T1'')"
    "ReadBranch (kv mem_index) ''main'' ex_store = Inr (ex_branch ''main'' ''#1'' ''T1'' ''T1'')"
    by (simp_all add: mem_index_def mem_tx_def ex_store_def mem_read_def)
  have l: "ListWorkspace (kv mem_index) ''dirty'' ex_store = Inr []"
    "ListWorkspace (kv mem_index) ''wip'' ex_store = Inr [ex_staged]"
    "ListWorkspace (kv mem_index) ''main'' ex_store = Inr []"
    by (simp_all add: mem_index_def mem_tx_def ex_store_def)
  have r: "Branch_CommitRoot (ex_branch ''dirty'' ''#1'' ''T1'' ''T2'')
       \<noteq> Branch_WorkspaceRoot (ex_branch ''dirty'' ''#1'' ''T1'' ''T2'')"
     "Branch_CommitRoot (ex_branch ''main'' ''#1'' ''T1'' ''T1'')
       = Branch_WorkspaceRoot (ex_branch ''main'' ''#1'' ''T1'' ''T1'')"
    by (simp_all add: ex_branch_def)
  note v = ex_validate
  from Merge_destination_check [OF v(1) v(2) v(6) b(1) l(1), of "''u''"]
       Merge_destination_check [OF v(1) v(2) v(5) b(2) l(2), of "''u''"]
       Merge_destination_check [OF v(1) v(2) v(4) b(3) l(3), of "''u''"]
       v b l r ex_merge_main(1)
  show ?thesis by simp
qed

text \<open>
  Claim C2. When the destination passes its check and the difference of source and
  destination holds a conflict, Merge returns the error MergeConflict together with
  the merge operations, which are the differences whose direction is not right, in
  their order; the store is as it was, so no merge commit is written.
\<close>

theorem Merge_conflict:
  assumes "ValidateRepoId env repoId = None" and "ValidateRef env source = None"
    and "ValidateRef env destination = None"
    and "ReadBranch (kv index) destination s = Inr destinationBranch"
    and "ListWorkspace (kv index) destination s = Inr []"
    and "Branch_CommitRoot destinationBranch = Branch_WorkspaceRoot destinationBranch"
    and "doDiff env (kv index) repoId source destination True s = Inr df"
    and "\<exists>d \<in> set df. Difference_Direction d = DifferenceDirectionConflict"
  shows "KVIndex_Merge env index repoId source destination userId s =
           ((filter (\<lambda>d. Difference_Direction d \<noteq> DifferenceDirectionRight) df,
             Some ErrMergeConflict), s)"
  using assms
  by (simp add: KVIndex_Merge_def Merge_tx_def Merge_body_def Merge_scan_eq RepoTransact_def)

theorem Merge_conflict_witness:
  "ValidateRepoId mem_env ''r'' = None \<and> ValidateRef mem_env ''dev'' = None
   \<and> ValidateRef mem_env ''hot'' = None
   \<and> ReadBranch (kv mem_index) ''hot'' ex_store = Inr (ex_branch ''hot'' ''#3'' ''T3'' ''T3'')
   \<and> ListWorkspace (kv mem_index) ''hot'' ex_store = Inr []
   \<and> Branch_CommitRoot (ex_branch ''hot'' ''#3'' ''T3'' ''T3'')
       = Branch_WorkspaceRoot (ex_branch ''hot'' ''#3'' ''T3'' ''T3'')
   \<and> doDiff mem_env (kv mem_index) ''r'' ''dev'' ''hot'' True ex_store = Inr [ex_conflict]
   \<and> Difference_Direction ex_conflict = DifferenceDirectionConflict
   \<and> KVIndex_Merge mem_env mem_index ''r'' ''dev'' ''hot'' ''u'' ex_store =
       (([ex_conflict], Some ErrMergeConflict), ex_store)"
proof -
  have b: "ReadBranch (kv mem_index) ''hot'' ex_store = Inr (ex_branch ''hot'' ''#3'' ''T3'' ''T3'')"
    by (simp add: mem_index_def mem_tx_def ex_store_def mem_read_def)
  have l: "ListWorkspace (kv mem_index) ''hot'' ex_store = Inr []"
    by (simp add: mem_index_def mem_tx_def ex_store_def)
  have r: "Branch_CommitRoot (ex_branch ''hot'' ''#3'' ''T3'' ''T3'')
       = Branch_WorkspaceRoot (ex_branch ''hot'' ''#3'' ''T3'' ''T3'')"
    by (simp add: ex_branch_def)
  have d: "doDiff mem_env (kv mem_index) ''r'' ''dev'' ''hot'' True ex_store = Inr [ex_conflict]"
    using ex_doDiff_hot by (simp add: mem_index_def)
  have c: "Difference_Direction ex_conflict = DifferenceDirectionConflict"
    by (simp add: ex_conflict_def)
  then have e: "\<exists>d \<in> set [ex_conflict]. Difference_Direction d = DifferenceDirectionConflict"
    by simp
  from Merge_conflict [OF ex_validate(1) ex_validate(2) ex_validate(3) b l r d e, of "''u''"] c
  have m: "KVIndex_Merge mem_env mem_index ''r'' ''dev'' ''hot'' ''u'' ex_store =
       (([ex_conflict], Some ErrMergeConflict), ex_store)"
    by simp
  from m ex_validate(1) ex_validate(2) ex_validate(3) b l r d c show ?thesis by blast
qed

text \<open>
  Claim C8. In a merge without conflict, whatever the writing of the merge commit
  and of the destination branch returns (\<open>outcome\<close>, an error included), Merge
  returns the merge operations with no error, and the store is the one that step
  left.
\<close>

theorem Merge_discards_commit_error:
  assumes "ValidateRepoId env repoId = None" and "ValidateRef env source = None"
    and "ValidateRef env destination = None"
    and "ReadBranch (kv index) destination s = Inr destinationBranch"
    and "ListWorkspace (kv index) destination s = Inr []"
    and "Branch_CommitRoot destinationBranch = Branch_WorkspaceRoot destinationBranch"
    and "doDiff env (kv index) repoId source destination True s = Inr df"
    and "\<forall>d \<in> set df. Difference_Direction d \<noteq> DifferenceDirectionConflict"
    and "ReadBranch (kv index) source s = Inr sourceBranch"
    and "Merge_entries env sourceBranch s
           (filter (\<lambda>d. Difference_Direction d \<noteq> DifferenceDirectionRight) df) []
         = Inr wsEntries"
    and "merkle_Update env (Branch_CommitRoot destinationBranch) wsEntries s = (Inr newRoot, s1)"
    and "doCommitUpdates env (kv index)
           (destinationBranch\<lparr>Branch_CommitRoot := newRoot, Branch_WorkspaceRoot := newRoot\<rparr>)
           userId (''Merge branch '' @ source @ '' into '' @ destination)
           [Branch_Commit destinationBranch, Branch_Commit sourceBranch] Map.empty
           (tsGenerator index) s1 = (outcome, s2)"
  shows "KVIndex_Merge env index repoId source destination userId s =
           ((filter (\<lambda>d. Difference_Direction d \<noteq> DifferenceDirectionRight) df, None), s2)"
  using assms
  by (simp add: KVIndex_Merge_def Merge_tx_def Merge_body_def Merge_scan_eq RepoTransact_def)

theorem Merge_discards_commit_error_witness:
  "ValidateRepoId mem_env ''r'' = None \<and> ValidateRef mem_env ''dev'' = None
   \<and> ValidateRef mem_env ''main'' = None
   \<and> ReadBranch (kv mem_index_failing) ''main'' ex_store
       = Inr (ex_branch ''main'' ''#1'' ''T1'' ''T1'')
   \<and> ListWorkspace (kv mem_index_failing) ''main'' ex_store = Inr []
   \<and> doDiff mem_env (kv mem_index_failing) ''r'' ''dev'' ''main'' True ex_store = Inr [ex_left]
   \<and> ReadBranch (kv mem_index_failing) ''dev'' ex_store
       = Inr (ex_branch ''dev'' ''#2'' ''T2'' ''T2'')
   \<and> Merge_entries mem_env (ex_branch ''dev'' ''#2'' ''T2'' ''T2'') ex_store [ex_left] []
       = Inr [ex_merged]
   \<and> fst (merkle_Update mem_env ''T1'' [ex_merged] ex_store) = Inr ''a=o2;''
   \<and> fst (doCommitUpdates mem_env (kv mem_index_failing)
           (ex_branch ''main'' ''#1'' ''a=o2;'' ''a=o2;'') ''u'' ''Merge branch dev into main''
           [''#1'', ''#2''] Map.empty 7 (snd (merkle_Update mem_env ''T1'' [ex_merged] ex_store)))
       = Inl (ErrOther ''write failed'')
   \<and> KVIndex_Merge mem_env mem_index_failing ''r'' ''dev'' ''main'' ''u'' ex_store =
       (([ex_left], None), snd (merkle_Update mem_env ''T1'' [ex_merged] ex_store))
   \<and> ReadBranch (kv mem_index_failing) ''main''
        (snd (KVIndex_Merge mem_env mem_index_failing ''r'' ''dev'' ''main'' ''u'' ex_store))
       = Inr (ex_branch ''main'' ''#1'' ''T1'' ''T1'')"
proof -
  define s1 where "s1 = snd (merkle_Update mem_env ''T1'' [ex_merged] ex_store)"
  have b: "ReadBranch (kv mem_index_failing) ''main'' ex_store
             = Inr (ex_branch ''main'' ''#1'' ''T1'' ''T1'')"
    by (simp add: mem_index_failing_def mem_tx_failing_def mem_tx_def ex_store_def mem_read_def)
  have l: "ListWorkspace (kv mem_index_failing) ''main'' ex_store = Inr []"
    by (simp add: mem_index_failing_def mem_tx_failing_def mem_tx_def ex_store_def)
  have r: "Branch_CommitRoot (ex_branch ''main'' ''#1'' ''T1'' ''T1'')
       = Branch_WorkspaceRoot (ex_branch ''main'' ''#1'' ''T1'' ''T1'')"
    by (simp add: ex_branch_def)
  have d: "doDiff mem_env (kv mem_index_failing) ''r'' ''dev'' ''main'' True ex_store
             = Inr [ex_left]"
    by (simp add: doDiff_def resolveRef_def mem_defs ex_defs Let_def ex_left_def)
  have nc: "\<forall>d \<in> set [ex_left]. Difference_Direction d \<noteq> DifferenceDirectionConflict"
    by (simp add: ex_left_def)
  have sb: "ReadBranch (kv mem_index_failing) ''dev'' ex_store
              = Inr (ex_branch ''dev'' ''#2'' ''T2'' ''T2'')"
    by (simp add: mem_index_failing_def mem_tx_failing_def mem_tx_def ex_store_def mem_read_def)
  have fl: "filter (\<lambda>d. Difference_Direction d \<noteq> DifferenceDirectionRight) [ex_left] = [ex_left]"
    by (simp add: ex_left_def)
  have me: "Merge_entries mem_env (ex_branch ''dev'' ''#2'' ''T2'' ''T2'') ex_store [ex_left] []
       = Inr [ex_merged]"
    by (simp add: mem_defs ex_defs ex_left_def ex_merged_def)
  have me2: "Merge_entries mem_env (ex_branch ''dev'' ''#2'' ''T2'' ''T2'') ex_store
       (filter (\<lambda>d. Difference_Direction d \<noteq> DifferenceDirectionRight) [ex_left]) []
       = Inr [ex_merged]"
    using me by (simp only: fl)
  have fu: "fst (merkle_Update mem_env ''T1'' [ex_merged] ex_store) = Inr ''a=o2;''"
    by (simp add: mem_defs ex_defs ex_merged_def Let_def)
  have u: "merkle_Update mem_env (Branch_CommitRoot (ex_branch ''main'' ''#1'' ''T1'' ''T1''))
             [ex_merged] ex_store = (Inr ''a=o2;'', s1)"
    using fu by (simp add: s1_def ex_branch_def prod_eq_iff)
  have dc: "doCommitUpdates mem_env (kv mem_index_failing)
           ((ex_branch ''main'' ''#1'' ''T1'' ''T1'')\<lparr>Branch_CommitRoot := ''a=o2;'',
              Branch_WorkspaceRoot := ''a=o2;''\<rparr>)
           ''u'' (''Merge branch '' @ ''dev'' @ '' into '' @ ''main'')
           [Branch_Commit (ex_branch ''main'' ''#1'' ''T1'' ''T1''),
            Branch_Commit (ex_branch ''dev'' ''#2'' ''T2'' ''T2'')] Map.empty
           (tsGenerator mem_index_failing) s1 = (Inl (ErrOther ''write failed''), s1)"
    by (simp add: doCommitUpdates_def mem_index_failing_def mem_tx_failing_def mem_tx_def Let_def)
  have dc2: "fst (doCommitUpdates mem_env (kv mem_index_failing)
           (ex_branch ''main'' ''#1'' ''a=o2;'' ''a=o2;'') ''u'' ''Merge branch dev into main''
           [''#1'', ''#2''] Map.empty 7 s1) = Inl (ErrOther ''write failed'')"
    using dc by (simp add: ex_branch_def mem_index_failing_def)
  have bs1: "ReadBranch (kv mem_index_failing) ''main'' s1
               = Inr (ex_branch ''main'' ''#1'' ''T1'' ''T1'')"
  proof -
    have "mem_branches s1 = mem_branches ex_store"
      by (simp add: s1_def mem_env_def mem_Update_keeps)
    then show ?thesis
      by (simp add: mem_index_failing_def mem_tx_failing_def mem_tx_def ex_store_def mem_read_def)
  qed
  from Merge_discards_commit_error
         [OF ex_validate(1) ex_validate(2) ex_validate(4) b l r d nc sb me2 u dc]
  have m: "KVIndex_Merge mem_env mem_index_failing ''r'' ''dev'' ''main'' ''u'' ex_store =
       (([ex_left], None), s1)"
    by (simp only: fl)
  from m ex_validate(1) ex_validate(2) ex_validate(4) b l d sb me fu dc2 bs1
  show ?thesis by (simp add: s1_def)
qed

subsection \<open>Commit\<close>

text \<open>
  Claim C3. Over a store that reads a branch back as it was written: when Commit
  succeeds on a branch whose record carries its own name, it has first run the
  partial commit; the commit it returns has the workspace root of the branch after
  that partial commit as its tree, the commit the branch pointed to before as its
  only parent, and the hash of its content as its address. Commit has written that
  commit under its address on the store the partial commit left, and then, on the
  store that write left, the branch with that address as its commit and the tree of
  the commit as both its commit root and its workspace root; the store after that
  second write is the store Commit leaves, and the branch reads back from it so. Over
  a store that reads a commit back as written, the commit reads back from the store
  Commit leaves.
\<close>

theorem Commit_writes_commit:
  assumes law: "writes_branch (kv index)"
    and b0: "ReadBranch (kv index) branch s = Inr b0" and name: "Branch_Name b0 = branch"
    and ok: "KVIndex_Commit env index repoId branch message committer metadata s = (Inr c, s')"
  shows "(\<exists>s1 bd s2.
           partialCommit env (kv index) branch s = (None, s1)
         \<and> ReadBranch (kv index) branch s1 = Inr bd
         \<and> Commit_Tree c = Branch_WorkspaceRoot bd
         \<and> Commit_Parents c = [Branch_Commit b0]
         \<and> Commit_Committer c = committer \<and> Commit_Message c = message
         \<and> Commit_Metadata c = metadata \<and> Commit_Timestamp c = tsGenerator index
         \<and> Commit_Address c = ident_Hash_Commit env (c\<lparr>Commit_Address := []\<rparr>)
         \<and> WriteCommit (kv index) (Commit_Address c) c s1 = (None, s2)
         \<and> WriteBranch (kv index) branch
               \<lparr>Branch_Name = branch, Branch_Commit = Commit_Address c,
                Branch_CommitRoot = Commit_Tree c, Branch_WorkspaceRoot = Commit_Tree c\<rparr> s2
             = (None, s'))
       \<and> ReadBranch (kv index) branch s' =
             Inr \<lparr>Branch_Name = branch, Branch_Commit = Commit_Address c,
                  Branch_CommitRoot = Commit_Tree c, Branch_WorkspaceRoot = Commit_Tree c\<rparr>
       \<and> (writes_commit (kv index) \<longrightarrow>
             ReadCommit (kv index) (Commit_Address c) s' = Inr c)"
proof -
  let ?tx = "kv index"
  from ok have tx: "Commit_tx env ?tx branch message committer metadata (tsGenerator index) s
                     = (Inr c, s')"
    by (auto simp add: KVIndex_Commit_def RepoTransact_def Let_def
             split: option.splits prod.splits sum.splits)
  then obtain s1 bd where pc: "partialCommit env ?tx branch s = (None, s1)"
    and rb: "ReadBranch ?tx branch s1 = Inr bd"
    and dcu: "doCommitUpdates env ?tx bd committer message [Branch_Commit bd] metadata
                (tsGenerator index) s1 = (Inr c, s')"
    by (auto simp add: Commit_tx_def split: option.splits prod.splits sum.splits)
  have bd: "Branch_Name bd = branch \<and> Branch_Commit bd = Branch_Commit b0"
  proof -
    from partialCommit_ok_cases [OF pc] show ?thesis
    proof (elim disjE conjE exE)
      assume "s1 = s" "ListWorkspace ?tx branch s = Inr []"
      with rb b0 name show ?thesis by simp
    next
      fix err assume "s1 = s" "ReadBranch ?tx branch s = Inl err"
      with b0 show ?thesis by simp
    next
      fix l bd0 t sa sb
      assume r0: "ReadBranch ?tx branch s = Inr bd0"
        and w: "WriteBranch ?tx branch \<lparr>Branch_Name = branch, Branch_Commit = Branch_Commit bd0,
                  Branch_CommitRoot = Branch_CommitRoot bd0, Branch_WorkspaceRoot = t\<rparr> sb
                = (None, s1)"
      from law w have "ReadBranch ?tx branch s1 =
          Inr \<lparr>Branch_Name = branch, Branch_Commit = Branch_Commit bd0,
                  Branch_CommitRoot = Branch_CommitRoot bd0, Branch_WorkspaceRoot = t\<rparr>"
        by (auto simp add: writes_branch_def)
      with rb r0 b0 show ?thesis by auto
    qed
  qed
  from dcu obtain s2 where
    c: "c = \<lparr>Commit_Address = ident_Hash_Commit env
               \<lparr>Commit_Address = [], Commit_Tree = Branch_WorkspaceRoot bd,
                Commit_Parents = [Branch_Commit bd], Commit_Committer = committer,
                Commit_Message = message, Commit_Timestamp = tsGenerator index,
                Commit_Metadata = metadata\<rparr>,
             Commit_Tree = Branch_WorkspaceRoot bd,
             Commit_Parents = [Branch_Commit bd], Commit_Committer = committer,
             Commit_Message = message, Commit_Timestamp = tsGenerator index,
             Commit_Metadata = metadata\<rparr>"
    and wc: "WriteCommit ?tx (Commit_Address c) c s1 = (None, s2)"
    and wb0: "WriteBranch ?tx (Branch_Name bd)
               (bd\<lparr>Branch_Commit := Commit_Address c, Branch_CommitRoot := Commit_Tree c,
                   Branch_WorkspaceRoot := Commit_Tree c\<rparr>) s2 = (None, s')"
    by (auto simp add: doCommitUpdates_def Let_def split: option.splits prod.splits)
  from bd have rec: "bd\<lparr>Branch_Commit := Commit_Address c, Branch_CommitRoot := Commit_Tree c,
                   Branch_WorkspaceRoot := Commit_Tree c\<rparr>
      = \<lparr>Branch_Name = branch, Branch_Commit = Commit_Address c,
                  Branch_CommitRoot = Commit_Tree c, Branch_WorkspaceRoot = Commit_Tree c\<rparr>"
    by (cases bd) auto
  from wb0 bd rec have wb: "WriteBranch ?tx branch
         \<lparr>Branch_Name = branch, Branch_Commit = Commit_Address c,
          Branch_CommitRoot = Commit_Tree c, Branch_WorkspaceRoot = Commit_Tree c\<rparr> s2
       = (None, s')"
    by simp
  from law wb have fin: "ReadBranch ?tx branch s' =
             Inr \<lparr>Branch_Name = branch, Branch_Commit = Commit_Address c,
                  Branch_CommitRoot = Commit_Tree c, Branch_WorkspaceRoot = Commit_Tree c\<rparr>"
    by (auto simp add: writes_branch_def)
  have rc: "ReadCommit ?tx (Commit_Address c) s' = Inr c" if wl: "writes_commit ?tx"
  proof -
    from wl wc have "ReadCommit ?tx (Commit_Address c) s2 = Inr c"
      by (auto simp add: writes_commit_def)
    moreover from wl wb have "ReadCommit ?tx (Commit_Address c) s'
                               = ReadCommit ?tx (Commit_Address c) s2"
      by (auto simp add: writes_commit_def)
    ultimately show ?thesis by simp
  qed
  from c have fields: "Commit_Tree c = Branch_WorkspaceRoot bd"
     "Commit_Parents c = [Branch_Commit bd]" "Commit_Committer c = committer"
     "Commit_Message c = message" "Commit_Metadata c = metadata"
     "Commit_Timestamp c = tsGenerator index"
     "Commit_Address c = ident_Hash_Commit env (c\<lparr>Commit_Address := []\<rparr>)"
    by simp_all
  from pc rb fields bd wc wb
  have "\<exists>s1 bd s2.
           partialCommit env (kv index) branch s = (None, s1)
         \<and> ReadBranch (kv index) branch s1 = Inr bd
         \<and> Commit_Tree c = Branch_WorkspaceRoot bd
         \<and> Commit_Parents c = [Branch_Commit b0]
         \<and> Commit_Committer c = committer \<and> Commit_Message c = message
         \<and> Commit_Metadata c = metadata \<and> Commit_Timestamp c = tsGenerator index
         \<and> Commit_Address c = ident_Hash_Commit env (c\<lparr>Commit_Address := []\<rparr>)
         \<and> WriteCommit (kv index) (Commit_Address c) c s1 = (None, s2)
         \<and> WriteBranch (kv index) branch
               \<lparr>Branch_Name = branch, Branch_Commit = Commit_Address c,
                Branch_CommitRoot = Commit_Tree c, Branch_WorkspaceRoot = Commit_Tree c\<rparr> s2
             = (None, s')"
    by auto
  with fin rc show ?thesis by blast
qed

lemma ex_Commit_wip:
  "fst (KVIndex_Commit mem_env mem_index ''r'' ''wip'' ''m'' ''u'' Map.empty ex_store)
     = Inr ex_committed"
  by (simp add: KVIndex_Commit_def RepoTransact_def Commit_tx_def partialCommit_def
        doCommitUpdates_def mem_defs ex_defs Let_def ex_committed_def)

theorem Commit_writes_commit_witness:
  "writes_branch (kv mem_index) \<and> writes_commit (kv mem_index)
   \<and> ReadBranch (kv mem_index) ''wip'' ex_store = Inr (ex_branch ''wip'' ''#1'' ''T1'' ''T1'')
   \<and> Branch_Name (ex_branch ''wip'' ''#1'' ''T1'' ''T1'') = ''wip''
   \<and> fst (KVIndex_Commit mem_env mem_index ''r'' ''wip'' ''m'' ''u'' Map.empty ex_store)
       = Inr ex_committed
   \<and> Commit_Parents ex_committed = [''#1'']
   \<and> Commit_Tree ex_committed = ''b=o4;a=o1;''
   \<and> ReadBranch (kv mem_index) ''wip''
        (snd (KVIndex_Commit mem_env mem_index ''r'' ''wip'' ''m'' ''u'' Map.empty ex_store))
       = Inr (ex_branch ''wip'' ''#b=o4;a=o1;|#1|m'' ''b=o4;a=o1;'' ''b=o4;a=o1;'')
   \<and> ReadCommit (kv mem_index) ''#b=o4;a=o1;|#1|m''
        (snd (KVIndex_Commit mem_env mem_index ''r'' ''wip'' ''m'' ''u'' Map.empty ex_store))
       = Inr ex_committed
   \<and> ReadCommit (kv mem_index) ''#b=o4;a=o1;|#1|m'' ex_store = Inl ErrNotFound"
proof -
  have law: "writes_branch (kv mem_index)"
    using mem_writes_branch by (simp add: mem_index_def)
  have lawc: "writes_commit (kv mem_index)"
    using mem_writes_commit by (simp add: mem_index_def)
  have b: "ReadBranch (kv mem_index) ''wip'' ex_store = Inr (ex_branch ''wip'' ''#1'' ''T1'' ''T1'')"
    by (simp add: mem_index_def mem_tx_def ex_store_def mem_read_def)
  have n: "Branch_Name (ex_branch ''wip'' ''#1'' ''T1'' ''T1'') = ''wip''"
    by (simp add: ex_branch_def)
  have before: "ReadCommit (kv mem_index) ''#b=o4;a=o1;|#1|m'' ex_store = Inl ErrNotFound"
    by (simp add: mem_index_def mem_tx_def ex_store_def mem_read_def)
  have ok: "KVIndex_Commit mem_env mem_index ''r'' ''wip'' ''m'' ''u'' Map.empty ex_store
      = (Inr ex_committed,
         snd (KVIndex_Commit mem_env mem_index ''r'' ''wip'' ''m'' ''u'' Map.empty ex_store))"
    using ex_Commit_wip by (simp add: prod_eq_iff)
  from Commit_writes_commit [OF law b n ok] lawc
  have "Commit_Parents ex_committed = [Branch_Commit (ex_branch ''wip'' ''#1'' ''T1'' ''T1'')]
    \<and> ReadBranch (kv mem_index) ''wip''
        (snd (KVIndex_Commit mem_env mem_index ''r'' ''wip'' ''m'' ''u'' Map.empty ex_store))
       = Inr \<lparr>Branch_Name = ''wip'', Branch_Commit = Commit_Address ex_committed,
                  Branch_CommitRoot = Commit_Tree ex_committed,
                  Branch_WorkspaceRoot = Commit_Tree ex_committed\<rparr>
    \<and> ReadCommit (kv mem_index) (Commit_Address ex_committed)
        (snd (KVIndex_Commit mem_env mem_index ''r'' ''wip'' ''m'' ''u'' Map.empty ex_store))
       = Inr ex_committed"
    by blast
  then have "Commit_Parents ex_committed = [''#1'']
    \<and> Commit_Tree ex_committed = ''b=o4;a=o1;''
    \<and> ReadBranch (kv mem_index) ''wip''
        (snd (KVIndex_Commit mem_env mem_index ''r'' ''wip'' ''m'' ''u'' Map.empty ex_store))
       = Inr (ex_branch ''wip'' ''#b=o4;a=o1;|#1|m'' ''b=o4;a=o1;'' ''b=o4;a=o1;'')
    \<and> ReadCommit (kv mem_index) ''#b=o4;a=o1;|#1|m''
        (snd (KVIndex_Commit mem_env mem_index ''r'' ''wip'' ''m'' ''u'' Map.empty ex_store))
       = Inr ex_committed"
    by (simp add: ex_branch_def ex_committed_def)
  with law lawc b n ex_Commit_wip before show ?thesis by blast
qed

subsection \<open>Deleting an object\<close>

text \<open>The case analysis of the transaction function, for a branch that is read.\<close>

lemma DeleteObject_tx_cases:
  assumes "ReadRepo tx s = Inr repo" and "ReadBranch tx branch s = Inr br"
  shows
   "(ReadFromWorkspace tx branch path s = Inl errW \<and> xerrors_Is errW ErrNotFound
      \<and> merkle_GetEntry env (Branch_WorkspaceRoot br) path Entry_OBJECT s = Inl errT
      \<and> xerrors_Is errT ErrNotFound \<longrightarrow>
        DeleteObject_tx env tx branch path ts s = (Inl ErrNotFound, s))
    \<and> (ReadFromWorkspace tx branch path s = Inr we \<and> \<not> WorkspaceEntry_Tombstone we
      \<and> merkle_GetEntry env (Branch_WorkspaceRoot br) path Entry_OBJECT s = Inl errT
      \<and> xerrors_Is errT ErrNotFound \<longrightarrow>
        DeleteObject_tx env tx branch path ts s =
          return_nil (DeleteWorkspacePath tx branch path s))
    \<and> (ReadFromWorkspace tx branch path s = Inl errW \<and> xerrors_Is errW ErrNotFound
      \<and> merkle_GetEntry env (Branch_WorkspaceRoot br) path Entry_OBJECT s = Inr me \<longrightarrow>
        DeleteObject_tx env tx branch path ts s =
          return_nil (writeEntryToWorkspace env tx repo branch path
                        (DeleteObject_tombstone env path ts) s))
    \<and> (ReadFromWorkspace tx branch path s = Inr we \<and> \<not> WorkspaceEntry_Tombstone we
      \<and> merkle_GetEntry env (Branch_WorkspaceRoot br) path Entry_OBJECT s = Inr me \<longrightarrow>
        DeleteObject_tx env tx branch path ts s =
          (case DeleteWorkspacePath tx branch path s of
             (Some err, s1) \<Rightarrow> (Inl err, s1)
           | (None, s1) \<Rightarrow>
               return_nil (writeEntryToWorkspace env tx repo branch path
                             (DeleteObject_tombstone env path ts) s1)))
    \<and> (ReadFromWorkspace tx branch path s = Inr we \<and> WorkspaceEntry_Tombstone we
      \<and> (merkle_GetEntry env (Branch_WorkspaceRoot br) path Entry_OBJECT s = Inr me
          \<or> merkle_GetEntry env (Branch_WorkspaceRoot br) path Entry_OBJECT s = Inl errT
            \<and> xerrors_Is errT ErrNotFound) \<longrightarrow>
        DeleteObject_tx env tx branch path ts s = (Inl ErrNotFound, s))"
  using assms
  by (auto simp add: DeleteObject_tx_def DeleteObject_merkle_def DeleteObject_decide_def
        DeleteObject_stage_def Let_def return_nil_def
        split: prod.splits option.splits)

text \<open>
  Claim C4. With valid arguments, a repository and a branch that the store returns,
  DeleteObject decides by the workspace entry at the path and the object entry at the
  path in the tree of the branch's workspace root. Neither present: it fails with
  NotFound and the store is as it was. In the workspace only, and not a tombstone:
  it calls \<open>DeleteWorkspacePath\<close> and nothing else, so no tombstone is staged. In
  the tree only: it calls \<open>WriteToWorkspacePath\<close> with the tombstone (path, name,
  timestamp and kind, flag set), followed by the partial commit when the ratio draws
  it. In both, the workspace entry not a tombstone: it calls \<open>DeleteWorkspacePath\<close>
  and then, on the store that left, \<open>WriteToWorkspacePath\<close> with the tombstone,
  followed by the partial commit when drawn. The workspace entry is a tombstone: it
  fails with NotFound and the store is as it was. An error of a step aborts the
  transaction, which leaves the store as it was.
\<close>

theorem DeleteObject_cases:
  assumes "ValidateRepoId env repoId = None" and "ValidateRef env branch = None"
    and "ValidatePath env path = None"
    and "ReadRepo (kv index) s = Inr repo" and "ReadBranch (kv index) branch s = Inr br"
  shows
   "(ReadFromWorkspace (kv index) branch path s = Inl errW \<and> xerrors_Is errW ErrNotFound
      \<and> merkle_GetEntry env (Branch_WorkspaceRoot br) path Entry_OBJECT s = Inl errT
      \<and> xerrors_Is errT ErrNotFound \<longrightarrow>
        KVIndex_DeleteObject env index repoId branch path s = (Some ErrNotFound, s))
    \<and> (ReadFromWorkspace (kv index) branch path s = Inr we \<and> \<not> WorkspaceEntry_Tombstone we
      \<and> merkle_GetEntry env (Branch_WorkspaceRoot br) path Entry_OBJECT s = Inl errT
      \<and> xerrors_Is errT ErrNotFound \<longrightarrow>
        KVIndex_DeleteObject env index repoId branch path s =
          (case DeleteWorkspacePath (kv index) branch path s of
             (Some err, s1) \<Rightarrow> (Some err, s)
           | (None, s1) \<Rightarrow> (None, s1)))
    \<and> (ReadFromWorkspace (kv index) branch path s = Inl errW \<and> xerrors_Is errW ErrNotFound
      \<and> merkle_GetEntry env (Branch_WorkspaceRoot br) path Entry_OBJECT s = Inr me \<longrightarrow>
        KVIndex_DeleteObject env index repoId branch path s =
          (case WriteToWorkspacePath (kv index) branch path
                  (DeleteObject_tombstone env path (tsGenerator index)) s of
             (Some err, s1) \<Rightarrow> (Some err, s)
           | (None, s1) \<Rightarrow>
               if shouldPartiallyCommit env repo then
                 (case partialCommit env (kv index) branch s1 of
                    (Some err, s2) \<Rightarrow> (Some err, s)
                  | (None, s2) \<Rightarrow> (None, s2))
               else (None, s1)))
    \<and> (ReadFromWorkspace (kv index) branch path s = Inr we \<and> \<not> WorkspaceEntry_Tombstone we
      \<and> merkle_GetEntry env (Branch_WorkspaceRoot br) path Entry_OBJECT s = Inr me \<longrightarrow>
        KVIndex_DeleteObject env index repoId branch path s =
          (case DeleteWorkspacePath (kv index) branch path s of
             (Some err, s0) \<Rightarrow> (Some err, s)
           | (None, s0) \<Rightarrow>
               (case WriteToWorkspacePath (kv index) branch path
                       (DeleteObject_tombstone env path (tsGenerator index)) s0 of
                  (Some err, s1) \<Rightarrow> (Some err, s)
                | (None, s1) \<Rightarrow>
                    if shouldPartiallyCommit env repo then
                      (case partialCommit env (kv index) branch s1 of
                         (Some err, s2) \<Rightarrow> (Some err, s)
                       | (None, s2) \<Rightarrow> (None, s2))
                    else (None, s1))))
    \<and> (ReadFromWorkspace (kv index) branch path s = Inr we \<and> WorkspaceEntry_Tombstone we
      \<and> (merkle_GetEntry env (Branch_WorkspaceRoot br) path Entry_OBJECT s = Inr me
          \<or> merkle_GetEntry env (Branch_WorkspaceRoot br) path Entry_OBJECT s = Inl errT
            \<and> xerrors_Is errT ErrNotFound) \<longrightarrow>
        KVIndex_DeleteObject env index repoId branch path s = (Some ErrNotFound, s))
    \<and> DeleteObject_tombstone env path (tsGenerator index) =
        \<lparr>WorkspaceEntry_Path = path,
         WorkspaceEntry_Entry = Some
           \<lparr>Entry_Name = pth_Basename env path, Entry_Address = [],
            Entry_Type = Entry_OBJECT, Entry_Timestamp = tsGenerator index,
            Entry_Size = 0, Entry_Checksum = []\<rparr>,
         WorkspaceEntry_Tombstone = True\<rparr>"
proof -
  have k: "KVIndex_DeleteObject env index repoId branch path s =
             only_err (RepoTransact
               (DeleteObject_tx env (kv index) branch path (tsGenerator index)) s)"
    using assms(1-3) by (simp add: KVIndex_DeleteObject_def)
  note c = DeleteObject_tx_cases [OF assms(4) assms(5), where path = path and env = env
               and ts = "tsGenerator index"]
  show ?thesis
    unfolding k
    using c [where errW = errW and errT = errT and we = we and me = me]
    by (auto simp add: only_err_def RepoTransact_def return_nil_def DeleteObject_tombstone_def
          writeEntryToWorkspace_def
          split: prod.splits option.splits sum.splits)
qed

theorem DeleteObject_cases_witness:
  "ValidateRepoId mem_env ''r'' = None \<and> ValidateRef mem_env ''main'' = None
   \<and> ValidateRef mem_env ''wip'' = None \<and> ValidateRef mem_env ''busy'' = None
   \<and> ValidatePath mem_env ''zz'' = None \<and> ValidatePath mem_env ''a'' = None
   \<and> ValidatePath mem_env ''b'' = None \<and> ValidatePath mem_env ''d'' = None
   \<and> ReadRepo (kv mem_index) ex_store_lazy = Inr ex_lazy_repo
   \<and> \<not> shouldPartiallyCommit mem_env ex_lazy_repo
   \<and> ReadBranch (kv mem_index) ''main'' ex_store_lazy
       = Inr (ex_branch ''main'' ''#1'' ''T1'' ''T1'')
   \<and> ReadBranch (kv mem_index) ''wip'' ex_store_lazy
       = Inr (ex_branch ''wip'' ''#1'' ''T1'' ''T1'')
   \<and> ReadBranch (kv mem_index) ''busy'' ex_store_lazy
       = Inr (ex_branch ''busy'' ''#1'' ''T1'' ''T1'')
   \<and> (ReadFromWorkspace (kv mem_index) ''main'' ''zz'' ex_store_lazy = Inl ErrNotFound
      \<and> merkle_GetEntry mem_env ''T1'' ''zz'' Entry_OBJECT ex_store_lazy = Inl ErrNotFound
      \<and> KVIndex_DeleteObject mem_env mem_index ''r'' ''main'' ''zz'' ex_store_lazy
          = (Some ErrNotFound, ex_store_lazy))
   \<and> (ReadFromWorkspace (kv mem_index) ''wip'' ''b'' ex_store_lazy = Inr ex_staged
      \<and> \<not> WorkspaceEntry_Tombstone ex_staged
      \<and> merkle_GetEntry mem_env ''T1'' ''b'' Entry_OBJECT ex_store_lazy = Inl ErrNotFound
      \<and> KVIndex_DeleteObject mem_env mem_index ''r'' ''wip'' ''b'' ex_store_lazy
          = (None, snd (DeleteWorkspacePath (kv mem_index) ''wip'' ''b'' ex_store_lazy))
      \<and> ListWorkspace (kv mem_index) ''wip''
          (snd (KVIndex_DeleteObject mem_env mem_index ''r'' ''wip'' ''b'' ex_store_lazy))
          = Inr [])
   \<and> (ReadFromWorkspace (kv mem_index) ''main'' ''a'' ex_store_lazy = Inl ErrNotFound
      \<and> merkle_GetEntry mem_env ''T1'' ''a'' Entry_OBJECT ex_store_lazy
          = Inr (ex_entry ''a'' ''o1'')
      \<and> KVIndex_DeleteObject mem_env mem_index ''r'' ''main'' ''a'' ex_store_lazy
          = (None, snd (WriteToWorkspacePath (kv mem_index) ''main'' ''a'' ex_tombstone
                          ex_store_lazy))
      \<and> ListWorkspace (kv mem_index) ''main''
          (snd (KVIndex_DeleteObject mem_env mem_index ''r'' ''main'' ''a'' ex_store_lazy))
          = Inr [ex_tombstone])
   \<and> (ReadFromWorkspace (kv mem_index) ''busy'' ''a'' ex_store_lazy = Inr ex_staged_a
      \<and> \<not> WorkspaceEntry_Tombstone ex_staged_a
      \<and> KVIndex_DeleteObject mem_env mem_index ''r'' ''busy'' ''a'' ex_store_lazy
          = (None, snd (WriteToWorkspacePath (kv mem_index) ''busy'' ''a'' ex_tombstone
                          (snd (DeleteWorkspacePath (kv mem_index) ''busy'' ''a''
                                  ex_store_lazy))))
      \<and> ListWorkspace (kv mem_index) ''busy''
          (snd (KVIndex_DeleteObject mem_env mem_index ''r'' ''busy'' ''a'' ex_store_lazy))
          = Inr [ex_tombstone, ex_deleted])
   \<and> (ReadFromWorkspace (kv mem_index) ''busy'' ''d'' ex_store_lazy = Inr ex_deleted
      \<and> WorkspaceEntry_Tombstone ex_deleted
      \<and> merkle_GetEntry mem_env ''T1'' ''d'' Entry_OBJECT ex_store_lazy = Inl ErrNotFound
      \<and> KVIndex_DeleteObject mem_env mem_index ''r'' ''busy'' ''d'' ex_store_lazy
          = (Some ErrNotFound, ex_store_lazy))
   \<and> DeleteObject_tombstone mem_env ''a'' 7 = ex_tombstone
   \<and> WorkspaceEntry_Tombstone ex_tombstone
   \<and> (fst (KVIndex_DeleteObject mem_env mem_index ''r'' ''main'' ''a'' ex_store) = None
      \<and> ListWorkspace (kv mem_index) ''main''
          (snd (KVIndex_DeleteObject mem_env mem_index ''r'' ''main'' ''a'' ex_store)) = Inr []
      \<and> ReadBranch (kv mem_index) ''main''
          (snd (KVIndex_DeleteObject mem_env mem_index ''r'' ''main'' ''a'' ex_store))
          = Inr (ex_branch ''main'' ''#1'' ''T1'' [])
      \<and> merkle_GetEntry mem_env [] ''a'' Entry_OBJECT
          (snd (KVIndex_DeleteObject mem_env mem_index ''r'' ''main'' ''a'' ex_store))
          = Inl ErrNotFound)"
proof -
  note v = ex_validate and f = ex_flags and z = ex_lazy_reads
  note r = ex_reads [folded ex_lazy_reads(2) ex_lazy_reads(3)]
  note t = ex_tree [folded ex_lazy_reads(4)]
  have dw: "fst (DeleteWorkspacePath (kv mem_index) b p s) = None" for b p s
    by (simp add: mem_index_def mem_tx_def)
  have ww: "fst (WriteToWorkspacePath (kv mem_index) b p w s) = None" for b p w s
    by (simp add: mem_index_def mem_tx_def)
  have tf: "WorkspaceEntry_Tombstone ex_tombstone" by (simp add: ex_tombstone_def)
  have c1: "KVIndex_DeleteObject mem_env mem_index ''r'' ''main'' ''zz'' ex_store_lazy
          = (Some ErrNotFound, ex_store_lazy)"
    using DeleteObject_cases [OF v(1) v(4) v(11) z(1) r(2),
            where errW = ErrNotFound and errT = ErrNotFound] r(5) t(1) f
    by simp
  have c5: "KVIndex_DeleteObject mem_env mem_index ''r'' ''busy'' ''d'' ex_store_lazy
          = (Some ErrNotFound, ex_store_lazy)"
    using DeleteObject_cases [OF v(1) v(9) v(10) z(1) r(4),
            where we = ex_deleted and errT = ErrNotFound] r(10) t(3) f
    by simp
  have c2: "KVIndex_DeleteObject mem_env mem_index ''r'' ''wip'' ''b'' ex_store_lazy
          = (None, snd (DeleteWorkspacePath (kv mem_index) ''wip'' ''b'' ex_store_lazy))"
    using DeleteObject_cases [OF v(1) v(5) v(8) z(1) r(3),
            where we = ex_staged and errT = ErrNotFound] r(8) t(2) f
          dw [of "''wip''" "''b''" ex_store_lazy]
    by (simp split: prod.splits option.splits)
  have c3: "KVIndex_DeleteObject mem_env mem_index ''r'' ''main'' ''a'' ex_store_lazy
          = (None, snd (WriteToWorkspacePath (kv mem_index) ''main'' ''a'' ex_tombstone
                          ex_store_lazy))"
    using DeleteObject_cases [OF v(1) v(4) v(7) z(1) r(2),
            where errW = ErrNotFound and me = "ex_entry ''a'' ''o1''"] r(6) t(4) f z(5-7)
          ww [of "''main''" "''a''" ex_tombstone ex_store_lazy]
    by (simp split: prod.splits option.splits)
  have c4: "KVIndex_DeleteObject mem_env mem_index ''r'' ''busy'' ''a'' ex_store_lazy
          = (None, snd (WriteToWorkspacePath (kv mem_index) ''busy'' ''a'' ex_tombstone
                          (snd (DeleteWorkspacePath (kv mem_index) ''busy'' ''a''
                                  ex_store_lazy))))"
    using DeleteObject_cases [OF v(1) v(9) v(7) z(1) r(4),
            where we = ex_staged_a and me = "ex_entry ''a'' ''o1''"] r(9) t(4) f z(5-7)
          dw [of "''busy''" "''a''" ex_store_lazy]
          ww [of "''busy''" "''a''" ex_tombstone
                 "snd (DeleteWorkspacePath (kv mem_index) ''busy'' ''a'' ex_store_lazy)"]
    by (simp split: prod.splits option.splits)
  have a2: "ListWorkspace (kv mem_index) ''wip''
          (snd (KVIndex_DeleteObject mem_env mem_index ''r'' ''wip'' ''b'' ex_store_lazy))
          = Inr []"
    by (simp add: c2 ex_lazy_after)
  have a3: "ListWorkspace (kv mem_index) ''main''
          (snd (KVIndex_DeleteObject mem_env mem_index ''r'' ''main'' ''a'' ex_store_lazy))
          = Inr [ex_tombstone]"
    by (simp add: c3 ex_lazy_after)
  have a4: "ListWorkspace (kv mem_index) ''busy''
          (snd (KVIndex_DeleteObject mem_env mem_index ''r'' ''busy'' ''a'' ex_store_lazy))
          = Inr [ex_tombstone, ex_deleted]"
    by (simp add: c4 ex_lazy_after)
  from c1 c2 c3 c4 c5 a2 a3 a4 v r(2-10) t f z(1) z(5) z(6) tf ex_delete_folded
  show ?thesis by blast
qed

subsection \<open>Reading an object\<close>

text \<open>
  Claim C5. With valid arguments and a repository that the store returns: when the
  reference resolves to a branch, ReadObject returns the object the store holds at
  the address of the workspace entry at the path if that entry exists and is not a
  tombstone, NotFound if it is a tombstone, and the object the Merkle engine finds
  from the branch's workspace root if the store reports no workspace entry; when the
  reference resolves to a commit, it returns the object found from the tree of the
  commit. In every case the store after ReadObject is the store before it.
\<close>

theorem ReadObject_cases:
  assumes "ValidateRepoId env repoId = None" and "ValidateRef env ref = None"
    and "ValidatePath env path = None" and "ReadRepo (kv index) s = Inr repo"
  shows
   "(resolveRef env (kv index) ref s =
       Inr \<lparr>reference_commit = c, reference_branch = Some b, reference_isBranch = True\<rparr> \<longrightarrow>
      (ReadFromWorkspace (kv index) (Branch_Name b) path s = Inr we
         \<and> \<not> WorkspaceEntry_Tombstone we \<longrightarrow>
         KVIndex_ReadObject env index repoId ref path s =
           (ReadObject (kv index) (Entry_GetAddress (WorkspaceEntry_Entry we)) s, s))
      \<and> (ReadFromWorkspace (kv index) (Branch_Name b) path s = Inr we
         \<and> WorkspaceEntry_Tombstone we \<longrightarrow>
         KVIndex_ReadObject env index repoId ref path s = (Inl ErrNotFound, s))
      \<and> (ReadFromWorkspace (kv index) (Branch_Name b) path s = Inl err
         \<and> xerrors_Is err ErrNotFound \<longrightarrow>
         KVIndex_ReadObject env index repoId ref path s =
           (merkle_GetObject env (Branch_WorkspaceRoot b) path s, s)))
    \<and> (resolveRef env (kv index) ref s =
       Inr \<lparr>reference_commit = c, reference_branch = None, reference_isBranch = False\<rparr> \<longrightarrow>
         KVIndex_ReadObject env index repoId ref path s =
           (merkle_GetObject env (Commit_Tree c) path s, s))
    \<and> snd (KVIndex_ReadObject env index repoId ref path s) = s"
  using assms
  by (auto simp add: KVIndex_ReadObject_def RepoReadTransact_def ReadObject_tx_def
        Branch_GetName_def Branch_GetWorkspaceRoot_def sum_case_id)

theorem ReadObject_cases_witness:
  "ValidateRepoId mem_env ''r'' = None \<and> ValidateRef mem_env ''wip'' = None
   \<and> ValidateRef mem_env ''busy'' = None \<and> ValidateRef mem_env ''#2'' = None
   \<and> ValidatePath mem_env ''a'' = None \<and> ValidatePath mem_env ''b'' = None
   \<and> ValidatePath mem_env ''d'' = None
   \<and> ReadRepo (kv mem_index) ex_store = Inr (CreateRepo_repo ''r'' ''bucket'' ''main'' 1)
   \<and> resolveRef mem_env (kv mem_index) ''wip'' ex_store =
       Inr \<lparr>reference_commit = ex_commit ''#1'' ''T1'' [],
            reference_branch = Some (ex_branch ''wip'' ''#1'' ''T1'' ''T1''),
            reference_isBranch = True\<rparr>
   \<and> resolveRef mem_env (kv mem_index) ''busy'' ex_store =
       Inr \<lparr>reference_commit = ex_commit ''#1'' ''T1'' [],
            reference_branch = Some (ex_branch ''busy'' ''#1'' ''T1'' ''T1''),
            reference_isBranch = True\<rparr>
   \<and> resolveRef mem_env (kv mem_index) ''#2'' ex_store =
       Inr \<lparr>reference_commit = ex_commit ''#2'' ''T2'' [''#1''],
            reference_branch = None, reference_isBranch = False\<rparr>
   \<and> (ReadFromWorkspace (kv mem_index) ''wip'' ''b'' ex_store = Inr ex_staged
      \<and> \<not> WorkspaceEntry_Tombstone ex_staged
      \<and> KVIndex_ReadObject mem_env mem_index ''r'' ''wip'' ''b'' ex_store
          = (Inr (ex_object ''4''), ex_store))
   \<and> (ReadFromWorkspace (kv mem_index) ''busy'' ''d'' ex_store = Inr ex_deleted
      \<and> WorkspaceEntry_Tombstone ex_deleted
      \<and> KVIndex_ReadObject mem_env mem_index ''r'' ''busy'' ''d'' ex_store
          = (Inl ErrNotFound, ex_store))
   \<and> (ReadFromWorkspace (kv mem_index) ''wip'' ''a'' ex_store = Inl ErrNotFound
      \<and> xerrors_Is ErrNotFound ErrNotFound
      \<and> KVIndex_ReadObject mem_env mem_index ''r'' ''wip'' ''a'' ex_store
          = (Inr (ex_object ''1''), ex_store))
   \<and> KVIndex_ReadObject mem_env mem_index ''r'' ''#2'' ''a'' ex_store
          = (Inr (ex_object ''2''), ex_store)"
proof -
  note v = ex_validate and r = ex_reads and f = ex_flags and rr = ex_resolve and o = ex_objects
  have ct: "Commit_Tree (ex_commit a t p) = t" for a t p by (simp add: ex_commit_def)
  have c1: "KVIndex_ReadObject mem_env mem_index ''r'' ''wip'' ''b'' ex_store
          = (Inr (ex_object ''4''), ex_store)"
    using ReadObject_cases [OF v(1) v(5) v(8) r(1), where we = ex_staged
            and b = "ex_branch ''wip'' ''#1'' ''T1'' ''T1''"
            and c = "ex_commit ''#1'' ''T1'' []"] rr(1) r(8) f o(1)
    by simp
  have c2: "KVIndex_ReadObject mem_env mem_index ''r'' ''busy'' ''d'' ex_store
          = (Inl ErrNotFound, ex_store)"
    using ReadObject_cases [OF v(1) v(9) v(10) r(1), where we = ex_deleted
            and b = "ex_branch ''busy'' ''#1'' ''T1'' ''T1''"
            and c = "ex_commit ''#1'' ''T1'' []"] rr(2) r(10) f
    by simp
  have c3: "KVIndex_ReadObject mem_env mem_index ''r'' ''wip'' ''a'' ex_store
          = (Inr (ex_object ''1''), ex_store)"
    using ReadObject_cases [OF v(1) v(5) v(7) r(1), where err = ErrNotFound
            and b = "ex_branch ''wip'' ''#1'' ''T1'' ''T1''"
            and c = "ex_commit ''#1'' ''T1'' []"] rr(1) r(7) f o(2)
    by simp
  have c4: "KVIndex_ReadObject mem_env mem_index ''r'' ''#2'' ''a'' ex_store
          = (Inr (ex_object ''2''), ex_store)"
    using ReadObject_cases [OF v(1) v(12) v(7) r(1),
            where c = "ex_commit ''#2'' ''T2'' [''#1'']"] rr(3) o(3) ct
    by simp
  from c1 c2 c3 c4 v r f rr show ?thesis by blast
qed

subsection \<open>The partial-commit ratio of a created repository\<close>



text \<open>
  On a branch name whose record the store reports as not found after it accepted the
  staging, the staging returns no error and the entry stays listed, whether or not
  the partial commit is rolled.
\<close>

lemma writeEntry_missing_branch:
  assumes "stages_entry tx"
    and w: "WriteToWorkspacePath tx branch path we s = (None, s1)"
    and nf: "ReadBranch tx branch s1 = Inl err" "xerrors_Is err ErrNotFound"
  shows "writeEntryToWorkspace env tx repo branch path we s = (None, s1)
         \<and> (\<exists>l. ListWorkspace tx branch s1 = Inr l \<and> we \<in> set l)"
proof -
  from assms(1) w obtain l where l: "ListWorkspace tx branch s1 = Inr l" "we \<in> set l"
    unfolding stages_entry_def by blast
  then have "l \<noteq> []" by auto
  with l nf have "partialCommit env tx branch s1 = (None, s1)"
    by (simp add: partialCommit_def)
  with w l show ?thesis
    by (auto simp add: writeEntryToWorkspace_def)
qed
















end
